theory Spec2Isabelle
  imports Main "HOL-Library.AList" "HOL-Library.Sublist"
begin

section \<open>Data model\<close>

text \<open>
  The proxy lifecycle engine of tsdproxy: target providers emit start, stop and restart
  events, the proxy manager keeps a registry of live proxies keyed by hostname, each
  proxy owns a mesh endpoint and its port workers and publishes its status changes.

  Go maps are association lists with distinct keys (\<open>map_of\<close> reads, \<open>AList.update\<close>
  writes, \<open>AList.delete\<close> removes); a \<open>range\<close> loop visits the entries in list order,
  which is one of the orders Go may choose. Goroutines are not modelled: every function
  below is the sequential effect of one call.
\<close>

text \<open>
  Modelled from the spec: package \<open>model\<close> (ProxyStatus, ProxyEvent, Config, PortConfig,
  Whois and their helpers) is not part of the sources at hand. The status values are
  those of the status event bus; a new proxy is in the first of them.
\<close>

datatype ProxyStatus =
    ProxyStatusInitializing
  | ProxyStatusStarting
  | ProxyStatusAuthenticating
  | ProxyStatusRunning
  | ProxyStatusStopping
  | ProxyStatusStopped
  | ProxyStatusError

record ProxyEvent =
  ev_ID :: string
  ev_Status :: ProxyStatus

text \<open>
  A parsed URL (\<open>net/url\<close>): \<open>Host\<close> is host or host:port as in Go. \<open>URL_Port\<close> is the
  part of \<open>Host\<close> after its last colon, \<open>URL_String\<close> the rendering of an absolute URL.
\<close>

record URL =
  Scheme :: string
  Host :: string
  Path :: string

definition URL_Port :: "URL \<Rightarrow> string" where
  "URL_Port u =
     (if CHR '':'' \<in> set (Host u)
      then rev (takeWhile (\<lambda>c. c \<noteq> CHR '':'') (rev (Host u)))
      else [])"

definition URL_String :: "URL \<Rightarrow> string" where
  "URL_String u =
     (if Scheme u = [] then [] else Scheme u @ '':'')
     @ (if Host u = [] then [] else ''//'' @ Host u)
     @ Path u"

definition empty_URL :: URL where
  "empty_URL = \<lparr>Scheme = [], Host = [], Path = []\<rparr>"

text \<open>
  Modelled from the spec: PortConfig with its fields \<open>proxy_protocol\<close>, \<open>proxy_port\<close>,
  \<open>mesh_flags\<close> (funnel), \<open>tls_validate\<close>, \<open>is_redirect\<close> and the ordered \<open>targets\<close>, of
  which the first is the active upstream.
\<close>

record PortConfig =
  ProxyProtocol :: string
  ProxyPort :: nat
  Funnel :: bool
  TLSValidate :: bool
  IsRedirect :: bool
  Targets :: "URL list"

definition GetTargets :: "PortConfig \<Rightarrow> URL list" where
  "GetTargets p = Targets p"

definition GetFirstTarget :: "PortConfig \<Rightarrow> URL" where
  "GetFirstTarget p = (case Targets p of [] \<Rightarrow> empty_URL | u # _ \<Rightarrow> u)"

definition PortConfig_AddTarget :: "PortConfig \<Rightarrow> URL \<Rightarrow> PortConfig" where
  "PortConfig_AddTarget p u = p\<lparr>Targets := Targets p @ [u]\<rparr>"

text \<open>
  The normalized proxy config. The mesh parameters and the dashboard metadata are carried
  through unchanged by everything below and are left out.
\<close>

record Config =
  TargetID :: string
  Hostname :: string
  TargetProvider :: string
  ProxyProvider :: string
  ProxyAccessLog :: bool
  Ports :: "(string \<times> PortConfig) list"

datatype error =
    ErrProxyProviderNotFound
  | ErrTargetProviderNotFound
  | ErrProxyPortNotFound
  | ErrNoPortFoundInContainer
  | ErrTargetNotFound
  | ErrNewConfig
  | ErrInspect
  | ErrURLParse
  | ErrListen

section \<open>Mesh endpoint (proxyproviders)\<close>

text \<open>
  The endpoint of one proxy (\<open>tailscale.Proxy\<close>): whether its server was started and
  whether it was closed. \<open>Provider_NewProxy\<close> is \<open>tailscale.Client.NewProxy\<close>, which
  builds the endpoint and never fails.
\<close>

record providerProxy =
  pp_config :: Config
  pp_started :: bool
  pp_closed :: bool

datatype Provider = TailscaleClient string

definition Provider_NewProxy :: "Provider \<Rightarrow> Config \<Rightarrow> error + providerProxy" where
  "Provider_NewProxy c cfg = Inr \<lparr>pp_config = cfg, pp_started = False, pp_closed = False\<rparr>"

definition providerProxy_Close :: "providerProxy \<Rightarrow> providerProxy" where
  "providerProxy_Close p = p\<lparr>pp_closed := True\<rparr>"

section \<open>Port workers and proxies (proxymanager)\<close>

datatype handler =
    ReverseProxyHandler PortConfig bool
  | RedirectHandler PortConfig

text \<open>
  A port worker: its handler, whether a listener was handed to it, and what \<open>close\<close>
  did (server shut down, listener closed, context cancelled).
\<close>

record port =
  httpServer :: handler
  listener :: bool
  port_shutdown :: bool
  listener_closed :: bool
  port_cancelled :: bool

definition newPortProxy :: "PortConfig \<Rightarrow> bool \<Rightarrow> port" where
  "newPortProxy pconfig accessLog =
     \<lparr>httpServer = ReverseProxyHandler pconfig accessLog, listener = False,
      port_shutdown = False, listener_closed = False, port_cancelled = False\<rparr>"

definition newPortRedirect :: "PortConfig \<Rightarrow> port" where
  "newPortRedirect pconfig =
     \<lparr>httpServer = RedirectHandler pconfig, listener = False,
      port_shutdown = False, listener_closed = False, port_cancelled = False\<rparr>"

definition port_close :: "port \<Rightarrow> port" where
  "port_close p =
     p\<lparr>port_shutdown := True,
       listener_closed := (if listener p then True else listener_closed p),
       port_cancelled := True\<rparr>"

text \<open>
  A proxy. \<open>onUpdate\<close> tells whether the status callback is wired; the events handed to
  the callback are appended to the bus that travels with the proxy.
\<close>

record Proxy =
  onUpdate :: bool
  cancelled :: bool
  providerProxy :: providerProxy
  Config :: Config
  ports :: "(string \<times> port) list"
  status :: ProxyStatus

type_synonym bus = "ProxyEvent list"

definition setStatus :: "ProxyStatus \<Rightarrow> Proxy \<times> bus \<Rightarrow> Proxy \<times> bus" where
  "setStatus st pb =
     (case pb of (proxy, b) \<Rightarrow>
        if status proxy = st then (proxy, b)
        else (proxy\<lparr>status := st\<rparr>,
              if onUpdate proxy
              then b @ [\<lparr>ev_ID = Hostname (Config proxy), ev_Status = st\<rparr>]
              else b))"

definition cancel :: "Proxy \<Rightarrow> Proxy" where
  "cancel proxy = proxy\<lparr>cancelled := True\<rparr>"

definition close :: "Proxy \<Rightarrow> Proxy" where
  "close proxy =
     proxy\<lparr>ports := map (\<lambda>(k, p). (k, port_close p)) (ports proxy),
           providerProxy := providerProxy_Close (providerProxy proxy)\<rparr>"

definition Close :: "Proxy \<times> bus \<Rightarrow> Proxy \<times> bus" where
  "Close pb =
     (case setStatus ProxyStatusStopping pb of (p1, b1) \<Rightarrow>
        setStatus ProxyStatusStopped (close (cancel p1), b1))"

definition GetStatus :: "Proxy \<Rightarrow> ProxyStatus" where
  "GetStatus proxy = status proxy"

definition initPorts :: "Proxy \<Rightarrow> Proxy" where
  "initPorts proxy =
     foldl (\<lambda>q (k, v).
              q\<lparr>ports := AList.update k
                   (if IsRedirect v then newPortRedirect v
                    else newPortProxy v (ProxyAccessLog (Config q)))
                   (ports q)\<rparr>)
       proxy (Ports (Config proxy))"

definition NewProxy :: "Config \<Rightarrow> Provider \<Rightarrow> error + Proxy" where
  "NewProxy pcfg proxyProvider =
     (case Provider_NewProxy proxyProvider pcfg of
        Inl e \<Rightarrow> Inl e
      | Inr pProvider \<Rightarrow>
          Inr (initPorts \<lparr>onUpdate = False, cancelled = False, providerProxy = pProvider,
                          Config = pcfg, ports = [], status = ProxyStatusInitializing\<rparr>))"

text \<open>
  \<open>start\<close> is the body of the goroutine \<open>Proxy.Start\<close> launches. Whether the endpoint
  starts and whether it vends a listener for a port key are decided outside the program:
  \<open>start_ok\<close> and \<open>listen_ok\<close> carry the two outcomes.
\<close>

definition GetListener :: "providerProxy \<Rightarrow> (string \<Rightarrow> bool) \<Rightarrow> string \<Rightarrow> error + unit" where
  "GetListener p listen_ok k =
     (case map_of (Ports (pp_config p)) k of
        None \<Rightarrow> Inl ErrProxyPortNotFound
      | Some portCfg \<Rightarrow> if listen_ok k then Inr () else Inl ErrListen)"

definition startPort :: "string \<Rightarrow> Proxy \<Rightarrow> Proxy" where
  "startPort name proxy =
     (case map_of (ports proxy) name of
        Some p \<Rightarrow> proxy\<lparr>ports := AList.update name (p\<lparr>listener := True\<rparr>) (ports proxy)\<rparr>
      | None \<Rightarrow> proxy)"

definition start :: "bool \<Rightarrow> (string \<Rightarrow> bool) \<Rightarrow> Proxy \<times> bus \<Rightarrow> Proxy \<times> bus" where
  "start start_ok listen_ok pb =
     (case pb of (proxy, b) \<Rightarrow>
        if length (ports proxy) = 0 then setStatus ProxyStatusError (proxy, b)
        else if \<not> start_ok then Close (proxy, b)
        else (foldl (\<lambda>q (k, v).
                       case GetListener (providerProxy q) listen_ok k of
                         Inl e \<Rightarrow> q
                       | Inr l \<Rightarrow> startPort k q)
                (proxy\<lparr>providerProxy := (providerProxy proxy)\<lparr>pp_started := True\<rparr>\<rparr>)
                (Ports (Config proxy)), b))"

section \<open>HTTP handlers of the port workers\<close>

text \<open>
  Header maps of \<open>net/http\<close>: a map from the stored key to the values. The methods
  \<open>Set\<close>, \<open>Del\<close> and \<open>Values\<close> bring the key into canonical form first
  (\<open>textproto.CanonicalMIMEHeaderKey\<close>: the first letter and every letter after a hyphen
  in upper case, the other letters in lower case; a key with a byte that is no header
  field byte stays as it is). Indexing the map directly uses the key as written. The
  server stores the headers of an inbound request under canonical keys.
\<close>

type_synonym Header = "string \<rightharpoonup> string list"

definition validHeaderFieldByte :: "char \<Rightarrow> bool" where
  "validHeaderFieldByte c =
     (c \<in> set (''abcdefghijklmnopqrstuvwxyz'' @ ''ABCDEFGHIJKLMNOPQRSTUVWXYZ'' @ ''0123456789''
               @ [CHR 0x21, CHR 0x23, CHR 0x24, CHR 0x25, CHR 0x26, CHR 0x27, CHR 0x2A,
                  CHR 0x2B, CHR 0x2D, CHR 0x2E, CHR 0x5E, CHR 0x5F, CHR 0x60, CHR 0x7C,
                  CHR 0x7E]))"

definition toUpper :: "char \<Rightarrow> char" where
  "toUpper c =
     (case map_of (zip ''abcdefghijklmnopqrstuvwxyz'' ''ABCDEFGHIJKLMNOPQRSTUVWXYZ'') c of
        Some d \<Rightarrow> d
      | None \<Rightarrow> c)"

definition toLower :: "char \<Rightarrow> char" where
  "toLower c =
     (case map_of (zip ''ABCDEFGHIJKLMNOPQRSTUVWXYZ'' ''abcdefghijklmnopqrstuvwxyz'') c of
        Some d \<Rightarrow> d
      | None \<Rightarrow> c)"

fun canonical_bytes :: "bool \<Rightarrow> string \<Rightarrow> string" where
  "canonical_bytes upper [] = []"
| "canonical_bytes upper (c # cs) =
     (if upper then toUpper c else toLower c)
     # canonical_bytes ((if upper then toUpper c else toLower c) = CHR ''-'') cs"

definition CanonicalMIMEHeaderKey :: "string \<Rightarrow> string" where
  "CanonicalMIMEHeaderKey s =
     (if list_all validHeaderFieldByte s then canonical_bytes True s else s)"

definition Header_Set :: "string \<Rightarrow> string \<Rightarrow> Header \<Rightarrow> Header" where
  "Header_Set k v h = h(CanonicalMIMEHeaderKey k \<mapsto> [v])"

definition Header_Del :: "string \<Rightarrow> Header \<Rightarrow> Header" where
  "Header_Del k h = h(CanonicalMIMEHeaderKey k := None)"


text \<open>
  Modelled from the spec: \<open>model.Whois\<close>, \<open>model.WhoisNewContext\<close> and
  \<open>model.WhoisFromContext\<close> are missing. The wrapping middleware that called \<open>whois\<close>
  sets the identity in the request context; \<open>whois\<close> returns the empty identity on
  failure; the inbound connection carries a mesh identity, and the headers are injected,
  when the identity is not the empty one. So \<open>WhoisNewContext\<close> stores an identity and
  \<open>WhoisFromContext\<close> gives it back together with whether it is a mesh identity.
\<close>

record Whois =
  DisplayName :: string
  Username :: string
  Whois_ID :: string
  ProfilePicURL :: string

definition empty_Whois :: Whois where
  "empty_Whois = \<lparr>DisplayName = [], Username = [], Whois_ID = [], ProfilePicURL = []\<rparr>"

record Context =
  ctx_whois :: "Whois option"

definition WhoisNewContext :: "Context \<Rightarrow> Whois \<Rightarrow> Context" where
  "WhoisNewContext ctx who = ctx\<lparr>ctx_whois := Some who\<rparr>"

definition WhoisFromContext :: "Context \<Rightarrow> Whois \<times> bool" where
  "WhoisFromContext ctx =
     (case ctx_whois ctx of
        None \<Rightarrow> (empty_Whois, False)
      | Some who \<Rightarrow> (who, who \<noteq> empty_Whois))"

text \<open>
  Modelled from the spec: package \<open>consts\<close> is missing; the three header names are those
  of the external interface.
\<close>

definition HeaderUsername :: string where "HeaderUsername = ''X-Username''"
definition HeaderDisplayName :: string where "HeaderDisplayName = ''X-Display-Name''"
definition HeaderProfilePicURL :: string where "HeaderProfilePicURL = ''X-Profile-Pic-URL''"

record Request =
  req_Method :: string
  req_URL :: URL
  req_Host :: string
  req_Header :: Header
  req_RemoteAddr :: string
  req_TLS :: bool
  req_ctx :: Context

text \<open>
  \<open>tailscale.Proxy.Whois\<close>: \<open>lc_WhoIs\<close> is the lookup of the mesh library's local client
  by remote address, \<open>None\<close> when it fails.
\<close>

record UserProfile =
  up_ID :: string
  LoginName :: string
  up_DisplayName :: string
  up_ProfilePicURL :: string

definition providerProxy_Whois :: "(string \<Rightarrow> UserProfile option) \<Rightarrow> Request \<Rightarrow> Whois" where
  "providerProxy_Whois lc_WhoIs r =
     (case lc_WhoIs (req_RemoteAddr r) of
        None \<Rightarrow> empty_Whois
      | Some who \<Rightarrow>
          \<lparr>DisplayName = up_DisplayName who, Username = LoginName who, Whois_ID = up_ID who,
           ProfilePicURL = up_ProfilePicURL who\<rparr>)"

definition ProviderUserMiddleware :: "(string \<Rightarrow> UserProfile option) \<Rightarrow> Request \<Rightarrow> Request" where
  "ProviderUserMiddleware lc_WhoIs r =
     r\<lparr>req_ctx := WhoisNewContext (req_ctx r) (providerProxy_Whois lc_WhoIs r)\<rparr>"

text \<open>
  The \<open>Rewrite\<close> hook of the reverse proxy. The library hands it the inbound request and
  the outbound request it has cloned from it; \<open>SetURL\<close> and \<open>SetXForwarded\<close> are the
  library's methods.
\<close>

record ProxyRequest =
  pr_In :: Request
  pr_Out :: Request

definition singleJoiningSlash :: "string \<Rightarrow> string \<Rightarrow> string" where
  "singleJoiningSlash a b =
     (let aslash = (a \<noteq> [] \<and> last a = CHR ''/''); bslash = (b \<noteq> [] \<and> hd b = CHR ''/'')
      in if aslash \<and> bslash then a @ tl b
         else if \<not> aslash \<and> \<not> bslash then a @ ''/'' @ b
         else a @ b)"

definition SetURL :: "URL \<Rightarrow> ProxyRequest \<Rightarrow> ProxyRequest" where
  "SetURL target r =
     r\<lparr>pr_Out := (pr_Out r)
          \<lparr>req_URL := \<lparr>Scheme = Scheme target, Host = Host target,
                       Path = singleJoiningSlash (Path target) (Path (req_URL (pr_Out r)))\<rparr>,
           req_Host := []\<rparr>\<rparr>"

definition SplitHostPort_host :: "string \<Rightarrow> string option" where
  "SplitHostPort_host a =
     (if CHR '':'' \<in> set a
      then Some (rev (tl (dropWhile (\<lambda>c. c \<noteq> CHR '':'') (rev a))))
      else None)"

fun Join :: "string list \<Rightarrow> string \<Rightarrow> string" where
  "Join [] sep = []"
| "Join [x] sep = x"
| "Join (x # y # ys) sep = x @ sep @ Join (y # ys) sep"

definition SetXForwarded :: "ProxyRequest \<Rightarrow> ProxyRequest" where
  "SetXForwarded r =
     (let h0 = req_Header (pr_Out r);
          h1 = (case SplitHostPort_host (req_RemoteAddr (pr_In r)) of
                  Some clientIP \<Rightarrow>
                    (case h0 ''X-Forwarded-For'' of
                       Some (p # ps) \<Rightarrow>
                         Header_Set ''X-Forwarded-For'' (Join (p # ps) '', '' @ '', '' @ clientIP) h0
                     | _ \<Rightarrow> Header_Set ''X-Forwarded-For'' clientIP h0)
                | None \<Rightarrow> Header_Del ''X-Forwarded-For'' h0);
          h2 = Header_Set ''X-Forwarded-Host'' (req_Host (pr_In r)) h1;
          h3 = Header_Set ''X-Forwarded-Proto'' (if req_TLS (pr_In r) then ''https'' else ''http'') h2
      in r\<lparr>pr_Out := (pr_Out r)\<lparr>req_Header := h3\<rparr>\<rparr>)"

definition Rewrite :: "PortConfig \<Rightarrow> ProxyRequest \<Rightarrow> ProxyRequest" where
  "Rewrite pconfig r =
     (let r1 = SetURL (GetFirstTarget pconfig) r;
          r2 = r1\<lparr>pr_Out := (pr_Out r1)\<lparr>req_Host := req_Host (pr_In r1)\<rparr>\<rparr>;
          r3 = r2\<lparr>pr_Out := (pr_Out r2)
                 \<lparr>req_Header := (req_Header (pr_Out r2))
                    (''X-Forwarded-For'' \<mapsto>
                       (case req_Header (pr_In r2) ''X-Forwarded-For'' of
                          None \<Rightarrow> [] | Some vs \<Rightarrow> vs))\<rparr>\<rparr>;
          r4 = (case WhoisFromContext (req_ctx (pr_In r3)) of
                  (user, ok) \<Rightarrow>
                    if ok then
                      r3\<lparr>pr_Out := (pr_Out r3)
                           \<lparr>req_Header :=
                              Header_Set HeaderProfilePicURL (ProfilePicURL user)
                                (Header_Set HeaderDisplayName (DisplayName user)
                                   (Header_Set HeaderUsername (Username user)
                                      (req_Header (pr_Out r3))))\<rparr>\<rparr>
                    else r3)
      in SetXForwarded r4)"

definition handler_outbound ::
  "(string \<Rightarrow> UserProfile option) \<Rightarrow> PortConfig \<Rightarrow> ProxyRequest \<Rightarrow> Request" where
  "handler_outbound lc_WhoIs pconfig r =
     pr_Out (Rewrite pconfig (r\<lparr>pr_In := ProviderUserMiddleware lc_WhoIs (pr_In r)\<rparr>))"

text \<open>
  What a handler does with one request: the response it writes and the upstream
  connections it opens. \<open>http_Redirect\<close> is \<open>http.Redirect\<close>: the Location of an absolute
  URL is the URL itself, a relative one is resolved against the request path (without
  the cleaning of dot segments).
\<close>

record Response =
  resp_code :: nat
  resp_Location :: "string option"

record HandlerResult =
  response :: Response
  dialled :: "URL list"

definition StatusMovedPermanently :: nat where
  "StatusMovedPermanently = 301"

definition path_dir :: "string \<Rightarrow> string" where
  "path_dir p = rev (dropWhile (\<lambda>c. c \<noteq> CHR ''/'') (rev p))"

definition http_Redirect :: "Request \<Rightarrow> URL \<Rightarrow> nat \<Rightarrow> Response" where
  "http_Redirect r u code =
     \<lparr>resp_code = code,
      resp_Location =
        Some (if Scheme u = [] \<and> Host u = []
              then (if Path u \<noteq> [] \<and> hd (Path u) = CHR ''/'' then URL_String u
                    else path_dir (if Path (req_URL r) = [] then ''/'' else Path (req_URL r))
                         @ URL_String u)
              else URL_String u)\<rparr>"

text \<open>
  The handler of a port worker on one request; \<open>upstream\<close> is the answer of the upstream
  server to the outbound request. The access log only writes log lines.
\<close>

definition serve ::
  "(string \<Rightarrow> UserProfile option) \<Rightarrow> (Request \<Rightarrow> Response) \<Rightarrow> handler \<Rightarrow> ProxyRequest
   \<Rightarrow> HandlerResult" where
  "serve lc_WhoIs upstream h r =
     (case h of
        ReverseProxyHandler pconfig accessLog \<Rightarrow>
          \<lparr>response = upstream (handler_outbound lc_WhoIs pconfig r),
           dialled = [req_URL (handler_outbound lc_WhoIs pconfig r)]\<rparr>
      | RedirectHandler pconfig \<Rightarrow>
          \<lparr>response = http_Redirect (pr_In r) (GetFirstTarget pconfig) StatusMovedPermanently,
           dialled = []\<rparr>)"

section \<open>Target providers\<close>

datatype ActionType =
    ActionStartProxy
  | ActionStopProxy
  | ActionRestartProxy
  | ActionStartProt
  | ActionStopPrort
  | ActionRestartPort

text \<open>
  A target event. Its provider reference is the name under which the provider is
  registered with the manager; every provider sets that name in the configs it builds.
\<close>

record TargetEvent =
  te_TargetProvider :: string
  te_ID :: string
  te_Action :: ActionType

text \<open>
  What the list provider takes from outside the sources at hand: \<open>url.Parse\<close> of the
  standard library (\<open>None\<close> is a parse error), the proxy port and protocol that
  \<open>model.NewPortShortLabel\<close> reads from a port key, whether \<open>model.NewConfig\<close>
  succeeds, and the constant \<open>model.DefaultProxyAccessLog\<close>.
\<close>

record Env =
  url_Parse :: "string \<Rightarrow> URL option"
  shortLabel :: "string \<Rightarrow> nat \<times> string"
  NewConfig_ok :: bool
  DefaultProxyAccessLog :: bool

text \<open>
  Modelled from the spec: \<open>model.NewPortShortLabel\<close> is missing. A port key of a list
  file names the proxy side only (port and protocol); the port starts without targets,
  with upstream TLS validation on, funnel off and no redirect.
\<close>

definition NewPortShortLabel :: "Env \<Rightarrow> string \<Rightarrow> PortConfig" where
  "NewPortShortLabel E k =
     \<lparr>ProxyProtocol = snd (shortLabel E k), ProxyPort = fst (shortLabel E k),
      Funnel = False, TLSValidate = True, IsRedirect = False, Targets = []\<rparr>"

subsection \<open>List-file provider\<close>

record list_port =
  lp_Targets :: "string list"
  lp_Funnel :: bool
  lp_IsRedirect :: bool
  lp_TLSValidate :: bool

record proxyConfig =
  pc_Ports :: "(string \<times> list_port) list"
  pc_ProxyProvider :: string

text \<open>
  The list client: the entries of the file as last loaded, the entries materialized as
  targets (the active ids), and whether the file watcher was started.
\<close>

record ListClient =
  l_name :: string
  l_configProxies :: "(string \<times> proxyConfig) list"
  l_proxies :: "(string \<times> proxyConfig) list"
  l_DefaultProxyProvider :: string
  l_watching :: bool

text \<open>One round of the inner loop of \<open>getPorts\<close>: an invalid target is skipped.\<close>

definition add_target_url :: "Env \<Rightarrow> PortConfig \<Rightarrow> string \<Rightarrow> PortConfig" where
  "add_target_url E port target =
     (case url_Parse E target of
        None \<Rightarrow> port
      | Some targetURL \<Rightarrow>
          if Scheme targetURL = [] \<or> Host targetURL = [] then port
          else PortConfig_AddTarget port targetURL)"

definition getPorts :: "Env \<Rightarrow> (string \<times> list_port) list \<Rightarrow> (string \<times> PortConfig) list" where
  "getPorts E l =
     foldl (\<lambda>ps (k, v).
              let port = foldl (add_target_url E)
                           ((NewPortShortLabel E k)\<lparr>IsRedirect := lp_IsRedirect v\<rparr>)
                           (lp_Targets v)
              in if length (GetTargets port) = 0 then ps
                 else AList.update k
                        (port\<lparr>TLSValidate := lp_TLSValidate v, Funnel := lp_Funnel v\<rparr>) ps)
       [] l"

definition list_addTarget :: "proxyConfig \<Rightarrow> string \<Rightarrow> ListClient \<Rightarrow> ListClient" where
  "list_addTarget cfg name c = c\<lparr>l_proxies := AList.update name cfg (l_proxies c)\<rparr>"

definition list_newProxyConfig ::
  "Env \<Rightarrow> ListClient \<Rightarrow> string \<Rightarrow> proxyConfig \<Rightarrow> error + (Config \<times> ListClient)" where
  "list_newProxyConfig E c name p =
     (if \<not> NewConfig_ok E then Inl ErrNewConfig
      else Inr (\<lparr>TargetID = name, Hostname = name, TargetProvider = l_name c,
                 ProxyProvider = (if pc_ProxyProvider p \<noteq> [] then pc_ProxyProvider p
                                  else l_DefaultProxyProvider c),
                 ProxyAccessLog = DefaultProxyAccessLog E,
                 Ports = getPorts E (pc_Ports p)\<rparr>,
                list_addTarget p name c))"

definition list_AddTarget :: "Env \<Rightarrow> ListClient \<Rightarrow> string \<Rightarrow> error + (Config \<times> ListClient)" where
  "list_AddTarget E c i =
     (case map_of (l_configProxies c) i of
        None \<Rightarrow> Inl ErrTargetNotFound
      | Some proxy \<Rightarrow> list_newProxyConfig E c i proxy)"

definition list_DeleteProxy :: "ListClient \<Rightarrow> string \<Rightarrow> error + ListClient" where
  "list_DeleteProxy c i =
     (case map_of (l_proxies c) i of
        None \<Rightarrow> Inl ErrTargetNotFound
      | Some p \<Rightarrow> Inr (c\<lparr>l_proxies := AList.delete i (l_proxies c)\<rparr>))"

text \<open>
  \<open>WatchEvents\<close> and \<open>Close\<close> of a provider return the provider and the events sent on
  the event channel, in order.
\<close>

definition list_WatchEvents :: "ListClient \<Rightarrow> ListClient \<times> TargetEvent list" where
  "list_WatchEvents c =
     (c\<lparr>l_watching := True\<rparr>,
      map (\<lambda>(k, p). \<lparr>te_TargetProvider = l_name c, te_ID = k,
                         te_Action = ActionStartProxy\<rparr>) (l_configProxies c))"

definition list_Close :: "ListClient \<Rightarrow> ListClient \<times> TargetEvent list" where
  "list_Close c =
     (c, map (\<lambda>(name, p). \<lparr>te_TargetProvider = l_name c, te_ID = name,
                            te_Action = ActionStopProxy\<rparr>) (l_proxies c))"

subsection \<open>Container-runtime provider\<close>

text \<open>
  A container as \<open>newContainer\<close> builds it. The labels, the image and the addresses of
  the attached networks are left out: only the absent \<open>tryConnectContainer\<close> reads the
  addresses.
\<close>

record container =
  c_id :: string
  c_ports :: "(string \<times> string) list"
  networkMode :: string
  defaultBridgeAddress :: string
  defaultTargetHostname :: string
  autodetect :: bool

text \<open>
  The runtime client. \<open>d_daemon\<close> holds, for every id the container engine can inspect,
  the container \<open>newContainer\<close> builds from the answer and the config its
  \<open>newProxyConfig\<close> derives; an id without entry is one whose inspection or
  materialization fails.
\<close>

record DockerClient =
  d_name :: string
  d_docker_open :: bool
  d_containers :: "(string \<times> container) list"
  d_defaultProxyProvider :: string
  d_daemon :: "(string \<times> container \<times> Config) list"

definition docker_AddTarget :: "DockerClient \<Rightarrow> string \<Rightarrow> error + (Config \<times> DockerClient)" where
  "docker_AddTarget c i =
     (case map_of (d_daemon c) i of
        None \<Rightarrow> Inl ErrInspect
      | Some (ctn, pcfg) \<Rightarrow>
          Inr (pcfg\<lparr>TargetID := c_id ctn, TargetProvider := d_name c\<rparr>,
               c\<lparr>d_containers := AList.update (c_id ctn) ctn (d_containers c)\<rparr>))"

definition docker_DeleteProxy :: "DockerClient \<Rightarrow> string \<Rightarrow> error + DockerClient" where
  "docker_DeleteProxy c i =
     (case map_of (d_containers c) i of
        None \<Rightarrow> Inl ErrTargetNotFound
      | Some ctn \<Rightarrow> Inr (c\<lparr>d_containers := AList.delete i (d_containers c)\<rparr>))"

definition docker_Close :: "DockerClient \<Rightarrow> DockerClient \<times> TargetEvent list" where
  "docker_Close c = (c\<lparr>d_docker_open := False\<rparr>, [])"

subsection \<open>Upstream URL resolution of a container\<close>

definition getPublishedPort :: "container \<Rightarrow> string \<Rightarrow> string" where
  "getPublishedPort c internalPort =
     (case find (\<lambda>(internal, published). internal = internalPort) (c_ports c) of
        Some (internal, published) \<Rightarrow> published
      | None \<Rightarrow> [])"

text \<open>
  What upstream resolution takes from outside: the result of \<open>os.Hostname\<close> (\<open>None\<close> is
  an error), the constant \<open>autoDetectTries\<close> and the outcome of the absent
  \<open>tryConnectContainer\<close> at each try (\<open>None\<close> when no candidate address accepts a
  connection), and \<open>url.Parse\<close>. The sleep between tries has no counterpart.
\<close>

record World =
  os_Hostname :: "string option"
  autoDetectTries :: nat
  tryConnectContainer :: "nat \<Rightarrow> string \<Rightarrow> string \<Rightarrow> string \<Rightarrow> URL option"
  w_url_Parse :: "string \<Rightarrow> URL option"

definition url_Parse_result :: "World \<Rightarrow> string \<Rightarrow> error + URL" where
  "url_Parse_result W s = (case w_url_Parse W s of None \<Rightarrow> Inl ErrURLParse | Some u \<Rightarrow> Inr u)"

fun autoDetect :: "(nat \<Rightarrow> URL option) \<Rightarrow> nat \<Rightarrow> nat \<Rightarrow> URL option" where
  "autoDetect probe try 0 = None"
| "autoDetect probe try (Suc n) =
     (case probe try of
        Some port \<Rightarrow> Some port
      | None \<Rightarrow> autoDetect probe (Suc try) n)"

definition getTargetURL :: "World \<Rightarrow> container \<Rightarrow> URL \<Rightarrow> error + URL" where
  "getTargetURL W c iPort =
     (let internalPort = URL_Port iPort;
          publishedPort = getPublishedPort c internalPort
      in if internalPort = [] \<and> publishedPort = [] then Inl ErrNoPortFoundInContainer
         else if (case os_Hostname W of None \<Rightarrow> False | Some osname \<Rightarrow> prefix osname (c_id c))
         then url_Parse_result W (''http://127.0.0.1:'' @ internalPort)
         else
           (case (if autodetect c
                  then autoDetect (\<lambda>try. tryConnectContainer W try (Scheme iPort) internalPort
                                           publishedPort) 0 (autoDetectTries W)
                  else None) of
              Some port \<Rightarrow> Inr port
            | None \<Rightarrow>
                if networkMode c = ''host'' \<and> defaultBridgeAddress c \<noteq> []
                then url_Parse_result W
                       (Scheme iPort @ ''://'' @ defaultTargetHostname c @ '':'' @ internalPort)
                else if publishedPort = [] then Inl ErrNoPortFoundInContainer
                else url_Parse_result W
                       (Scheme iPort @ ''://'' @ defaultTargetHostname c @ '':'' @ publishedPort)))"

text \<open>
  The resolution order as the specification words it: own host, autodetect probes,
  host networking, published port, else failure.
\<close>

definition first_probe :: "(nat \<Rightarrow> URL option) \<Rightarrow> nat \<Rightarrow> URL option" where
  "first_probe probe K =
     (case find (\<lambda>t. probe t \<noteq> None) [0..<K] of None \<Rightarrow> None | Some t \<Rightarrow> probe t)"

definition spec_getTargetURL :: "World \<Rightarrow> container \<Rightarrow> URL \<Rightarrow> error + URL" where
  "spec_getTargetURL W c iPort =
     (let internalPort = URL_Port iPort;
          publishedPort = getPublishedPort c internalPort;
          probed = (if autodetect c
                    then first_probe (\<lambda>t. tryConnectContainer W t (Scheme iPort) internalPort
                                             publishedPort) (autoDetectTries W)
                    else None)
      in if (case os_Hostname W of None \<Rightarrow> False | Some osname \<Rightarrow> prefix osname (c_id c))
         then url_Parse_result W (''http://127.0.0.1:'' @ internalPort)
         else
           (case probed of
              Some u \<Rightarrow> Inr u
            | None \<Rightarrow>
                if networkMode c = ''host'' \<and> defaultBridgeAddress c \<noteq> []
                then url_Parse_result W
                       (Scheme iPort @ ''://'' @ defaultTargetHostname c @ '':'' @ internalPort)
                else if publishedPort \<noteq> []
                then url_Parse_result W
                       (Scheme iPort @ ''://'' @ defaultTargetHostname c @ '':'' @ publishedPort)
                else Inl ErrNoPortFoundInContainer))"

subsection \<open>The TargetProvider interface\<close>

datatype TargetProvider = DockerProvider DockerClient | ListProvider ListClient

definition tp_AddTarget :: "Env \<Rightarrow> TargetProvider \<Rightarrow> string \<Rightarrow> error + (Config \<times> TargetProvider)" where
  "tp_AddTarget E tp i =
     (case tp of
        DockerProvider c \<Rightarrow>
          (case docker_AddTarget c i of
             Inl e \<Rightarrow> Inl e | Inr (cfg, c') \<Rightarrow> Inr (cfg, DockerProvider c'))
      | ListProvider c \<Rightarrow>
          (case list_AddTarget E c i of
             Inl e \<Rightarrow> Inl e | Inr (cfg, c') \<Rightarrow> Inr (cfg, ListProvider c')))"

definition tp_DeleteProxy :: "TargetProvider \<Rightarrow> string \<Rightarrow> error + TargetProvider" where
  "tp_DeleteProxy tp i =
     (case tp of
        DockerProvider c \<Rightarrow>
          (case docker_DeleteProxy c i of Inl e \<Rightarrow> Inl e | Inr c' \<Rightarrow> Inr (DockerProvider c'))
      | ListProvider c \<Rightarrow>
          (case list_DeleteProxy c i of Inl e \<Rightarrow> Inl e | Inr c' \<Rightarrow> Inr (ListProvider c')))"

definition tp_GetDefaultProxyProviderName :: "TargetProvider \<Rightarrow> string" where
  "tp_GetDefaultProxyProviderName tp =
     (case tp of
        DockerProvider c \<Rightarrow> d_defaultProxyProvider c
      | ListProvider c \<Rightarrow> l_DefaultProxyProvider c)"

definition tp_Close :: "TargetProvider \<Rightarrow> TargetProvider \<times> TargetEvent list" where
  "tp_Close tp =
     (case tp of
        DockerProvider c \<Rightarrow> (case docker_Close c of (c', evs) \<Rightarrow> (DockerProvider c', evs))
      | ListProvider c \<Rightarrow> (case list_Close c of (c', evs) \<Rightarrow> (ListProvider c', evs)))"

text \<open>The ids a provider holds as active: the keys of its bookkeeping map.\<close>

definition tp_active :: "TargetProvider \<Rightarrow> string list" where
  "tp_active tp =
     (case tp of
        DockerProvider c \<Rightarrow> map fst (d_containers c)
      | ListProvider c \<Rightarrow> map fst (l_proxies c))"

section \<open>Proxy manager\<close>

text \<open>
  The manager: the registry of live proxies keyed by hostname, the target providers and
  the mesh providers by name, the configured global default mesh provider, and the
  sequence of events handed to \<open>broadcastStatusEvents\<close> (what a subscriber that never
  lags observes).
\<close>

record ProxyManager =
  Proxies :: "(string \<times> Proxy) list"
  TargetProviders :: "(string \<times> TargetProvider) list"
  ProxyProviders :: "(string \<times> Provider) list"
  cfg_DefaultProxyProvider :: string
  statusBus :: bus

definition NewProxyManager ::
  "(string \<times> TargetProvider) list \<Rightarrow> (string \<times> Provider) list \<Rightarrow> string \<Rightarrow> ProxyManager" where
  "NewProxyManager tps pps d =
     \<lparr>Proxies = [], TargetProviders = tps, ProxyProviders = pps,
      cfg_DefaultProxyProvider = d, statusBus = []\<rparr>"

definition broadcastStatusEvents :: "ProxyEvent \<Rightarrow> ProxyManager \<Rightarrow> ProxyManager" where
  "broadcastStatusEvents event pm = pm\<lparr>statusBus := statusBus pm @ [event]\<rparr>"

definition addProxy :: "Proxy \<Rightarrow> ProxyManager \<Rightarrow> ProxyManager" where
  "addProxy proxy pm =
     pm\<lparr>Proxies := AList.update (Hostname (Config proxy)) proxy (Proxies pm)\<rparr>"

definition removeProxy :: "string \<Rightarrow> ProxyManager \<Rightarrow> ProxyManager" where
  "removeProxy hostname pm =
     (case map_of (Proxies pm) hostname of
        None \<Rightarrow> pm
      | Some proxy \<Rightarrow>
          (case Close (proxy, statusBus pm) of (proxy', b) \<Rightarrow>
             pm\<lparr>Proxies := AList.delete hostname (Proxies pm), statusBus := b\<rparr>))"

definition getProxyByTargetID :: "ProxyManager \<Rightarrow> string \<Rightarrow> Proxy option" where
  "getProxyByTargetID pm targetID =
     (case find (\<lambda>(h, p). TargetID (Config p) = targetID) (Proxies pm) of
        None \<Rightarrow> None
      | Some (h, p) \<Rightarrow> Some p)"

definition getProxyProvider :: "ProxyManager \<Rightarrow> Config \<Rightarrow> error + Provider" where
  "getProxyProvider pm proxy =
     (if ProxyProvider proxy \<noteq> [] then
        (case map_of (ProxyProviders pm) (ProxyProvider proxy) of
           None \<Rightarrow> Inl ErrProxyProviderNotFound
         | Some p \<Rightarrow> Inr p)
      else
        (case map_of (TargetProviders pm) (TargetProvider proxy) of
           None \<Rightarrow> Inl ErrTargetProviderNotFound
         | Some targetProvider \<Rightarrow>
             (case map_of (ProxyProviders pm) (tp_GetDefaultProxyProviderName targetProvider) of
                Some p \<Rightarrow> Inr p
              | None \<Rightarrow>
                  (case map_of (ProxyProviders pm) (cfg_DefaultProxyProvider pm) of
                     Some p \<Rightarrow> Inr p
                   | None \<Rightarrow> Inl ErrProxyProviderNotFound))))"

text \<open>
  \<open>newAndStartProxy\<close> up to the launch of the proxy's goroutine: the proxy is built,
  its callback wired to the broadcast, it is registered and Initializing is broadcast.
  \<open>start\<close> then runs on its own.
\<close>

definition newAndStartProxy :: "string \<Rightarrow> Config \<Rightarrow> ProxyManager \<Rightarrow> ProxyManager" where
  "newAndStartProxy name proxyConfig pm =
     (case getProxyProvider pm proxyConfig of
        Inl e \<Rightarrow> pm
      | Inr proxyProvider \<Rightarrow>
          (case NewProxy proxyConfig proxyProvider of
             Inl e \<Rightarrow> pm
           | Inr p \<Rightarrow>
               broadcastStatusEvents
                 \<lparr>ev_ID = Hostname (Config p), ev_Status = ProxyStatusInitializing\<rparr>
                 (addProxy (p\<lparr>onUpdate := True\<rparr>) pm)))"

text \<open>
  The handlers return \<open>None\<close> where the Go code panics: a method call on a provider
  reference that is nil.
\<close>

definition eventStart :: "Env \<Rightarrow> TargetEvent \<Rightarrow> ProxyManager \<Rightarrow> ProxyManager option" where
  "eventStart E event pm =
     (case map_of (TargetProviders pm) (te_TargetProvider event) of
        None \<Rightarrow> None
      | Some tp \<Rightarrow>
          (case tp_AddTarget E tp (te_ID event) of
             Inl e \<Rightarrow> Some pm
           | Inr (pcfg, tp') \<Rightarrow>
               Some (newAndStartProxy (Hostname pcfg) pcfg
                       (pm\<lparr>TargetProviders :=
                             AList.update (te_TargetProvider event) tp' (TargetProviders pm)\<rparr>))))"

definition eventStop :: "TargetEvent \<Rightarrow> ProxyManager \<Rightarrow> ProxyManager option" where
  "eventStop event pm =
     (case getProxyByTargetID pm (te_ID event) of
        None \<Rightarrow> Some pm
      | Some proxy \<Rightarrow>
          (case map_of (TargetProviders pm) (TargetProvider (Config proxy)) of
             None \<Rightarrow> None
           | Some targetprovider \<Rightarrow>
               (case tp_DeleteProxy targetprovider (te_ID event) of
                  Inl e \<Rightarrow> Some pm
                | Inr tp' \<Rightarrow>
                    Some (removeProxy (Hostname (Config proxy))
                            (pm\<lparr>TargetProviders :=
                                  AList.update (TargetProvider (Config proxy)) tp'
                                    (TargetProviders pm)\<rparr>)))))"

definition HandleProxyEvent :: "Env \<Rightarrow> TargetEvent \<Rightarrow> ProxyManager \<Rightarrow> ProxyManager option" where
  "HandleProxyEvent E event pm =
     (case te_Action event of
        ActionStartProxy \<Rightarrow> eventStart E event pm
      | ActionStopProxy \<Rightarrow> eventStop event pm
      | ActionRestartProxy \<Rightarrow>
          (case eventStop event pm of
             None \<Rightarrow> None
           | Some pm' \<Rightarrow> eventStart E event pm')
      | _ \<Rightarrow> Some pm)"

definition StopAllProxies :: "ProxyManager \<Rightarrow> ProxyManager" where
  "StopAllProxies pm = foldl (\<lambda>m i. removeProxy i m) pm (map fst (Proxies pm))"

text \<open>
  The operations that change the registry, one at a time: the events the watchers
  dispatch and the global shutdown.
\<close>

datatype manager_op = Dispatch TargetEvent | Shutdown

definition manager_step :: "Env \<Rightarrow> manager_op \<Rightarrow> ProxyManager \<Rightarrow> ProxyManager option" where
  "manager_step E opn pm =
     (case opn of
        Dispatch event \<Rightarrow> HandleProxyEvent E event pm
      | Shutdown \<Rightarrow> Some (StopAllProxies pm))"

fun manager_run :: "Env \<Rightarrow> manager_op list \<Rightarrow> ProxyManager \<Rightarrow> ProxyManager option" where
  "manager_run E [] pm = Some pm"
| "manager_run E (opn # ops) pm =
     (case manager_step E opn pm of
        None \<Rightarrow> None
      | Some pm' \<Rightarrow> manager_run E ops pm')"

text \<open>
  The goroutine that \<open>Proxy.Start\<close> launched, run to its end on the proxy registered
  under a hostname: the registry holds a reference to the proxy, so its new state and
  the events it published show in the manager.
\<close>

definition proxy_start :: "bool \<Rightarrow> (string \<Rightarrow> bool) \<Rightarrow> string \<Rightarrow> ProxyManager \<Rightarrow> ProxyManager" where
  "proxy_start start_ok listen_ok hostname pm =
     (case map_of (Proxies pm) hostname of
        None \<Rightarrow> pm
      | Some proxy \<Rightarrow>
          (case start start_ok listen_ok (proxy, statusBus pm) of (proxy', b) \<Rightarrow>
             pm\<lparr>Proxies := AList.update hostname proxy' (Proxies pm), statusBus := b\<rparr>))"

section \<open>Status events of one proxy\<close>

text \<open>A sequence of \<open>setStatus\<close> calls on one proxy, one after the other.\<close>

fun setStatuses :: "ProxyStatus list \<Rightarrow> Proxy \<times> bus \<Rightarrow> Proxy \<times> bus" where
  "setStatuses [] pb = pb"
| "setStatuses (st # sts) pb = setStatuses sts (setStatus st pb)"

text \<open>
  The order of the statuses along the state machine of the specification: Initializing,
  Starting, Authenticating, Running, then Error, Stopping, Stopped. A regress is a step
  to a status that comes earlier; an observer sees one when two consecutive statuses on
  the bus are such a step. Running to Stopping and Stopping to Stopped, the documented
  path, go forward.
\<close>

fun lifecycle_rank :: "ProxyStatus \<Rightarrow> nat" where
  "lifecycle_rank ProxyStatusInitializing = 0"
| "lifecycle_rank ProxyStatusStarting = 1"
| "lifecycle_rank ProxyStatusAuthenticating = 2"
| "lifecycle_rank ProxyStatusRunning = 3"
| "lifecycle_rank ProxyStatusError = 4"
| "lifecycle_rank ProxyStatusStopping = 5"
| "lifecycle_rank ProxyStatusStopped = 6"

definition regress :: "ProxyStatus \<Rightarrow> ProxyStatus \<Rightarrow> bool" where
  "regress a b = (lifecycle_rank b < lifecycle_rank a)"

fun sees_regress :: "ProxyStatus list \<Rightarrow> bool" where
  "sees_regress (a # b # sts) = (regress a b \<or> sees_regress (b # sts))"
| "sees_regress sts = False"

section \<open>Observations and example inputs\<close>

text \<open>
  What an observer sees of the registry (hostname, target id and status of each entry)
  and of the status bus. A manager that panicked shows nothing.
\<close>

definition registry_view :: "ProxyManager option \<Rightarrow> (string \<times> string \<times> ProxyStatus) list" where
  "registry_view r =
     (case r of
        None \<Rightarrow> []
      | Some pm \<Rightarrow> map (\<lambda>(h, p). (h, TargetID (Config p), status p)) (Proxies pm))"

definition bus_view :: "ProxyManager option \<Rightarrow> (string \<times> ProxyStatus) list" where
  "bus_view r =
     (case r of
        None \<Rightarrow> []
      | Some pm \<Rightarrow> map (\<lambda>e. (ev_ID e, ev_Status e)) (statusBus pm))"

text \<open>
  A target URL of a list file is invalid when it does not parse or lacks scheme or host.
\<close>

definition invalid_target :: "Env \<Rightarrow> string \<Rightarrow> bool" where
  "invalid_target E t =
     (case url_Parse E t of None \<Rightarrow> True | Some u \<Rightarrow> Scheme u = [] \<or> Host u = [])"

definition all_targets_invalid :: "Env \<Rightarrow> proxyConfig \<Rightarrow> bool" where
  "all_targets_invalid E p =
     list_all (\<lambda>(k, v). list_all (invalid_target E) (lp_Targets v)) (pc_Ports p)"

text \<open>
  Example inputs. \<open>example_parse\<close> agrees with \<open>url.Parse\<close> on the strings used below:
  an absolute URL, a bare host name (a path without scheme) and an unclosed IPv6 literal
  (a parse error). Two running containers carry the same \<open>name\<close> label \<open>web\<close>; the list
  file has one entry \<open>foo\<close> whose only port has no valid target.
\<close>

definition example_parse :: "string \<Rightarrow> URL option" where
  "example_parse s =
     (if s = ''https://example.com/''
      then Some \<lparr>Scheme = ''https'', Host = ''example.com'', Path = ''/''\<rparr>
      else if s = ''http://[::1'' then None
      else Some \<lparr>Scheme = [], Host = [], Path = s\<rparr>)"

definition example_Env :: Env where
  "example_Env =
     \<lparr>url_Parse = example_parse, shortLabel = (\<lambda>k. (80, ''http'')),
      NewConfig_ok = True, DefaultProxyAccessLog = True\<rparr>"

definition example_container :: "string \<Rightarrow> container" where
  "example_container i =
     \<lparr>c_id = i, c_ports = [(''8080'', ''32811'')], networkMode = ''bridge'',
      defaultBridgeAddress = ''172.17.0.1'', defaultTargetHostname = ''host.docker.internal'',
      autodetect = False\<rparr>"

definition example_web_Config :: "string \<Rightarrow> Config" where
  "example_web_Config i =
     \<lparr>TargetID = i, Hostname = ''web'', TargetProvider = ''local'', ProxyProvider = [],
      ProxyAccessLog = True,
      Ports = [(''port.http'',
                \<lparr>ProxyProtocol = ''http'', ProxyPort = 80, Funnel = False, TLSValidate = True,
                 IsRedirect = False,
                 Targets = [\<lparr>Scheme = ''http'', Host = ''host.docker.internal:32811'',
                             Path = []\<rparr>]\<rparr>)]\<rparr>"

definition example_DockerClient :: DockerClient where
  "example_DockerClient =
     \<lparr>d_name = ''local'', d_docker_open = True, d_containers = [],
      d_defaultProxyProvider = ''default'',
      d_daemon = [(''c1'', example_container ''c1'', example_web_Config ''c1''),
                  (''c2'', example_container ''c2'', example_web_Config ''c2'')]\<rparr>"

definition example_ListClient :: ListClient where
  "example_ListClient =
     \<lparr>l_name = ''files'',
      l_configProxies =
        [(''foo'', \<lparr>pc_Ports = [(''80/http'',
                                 \<lparr>lp_Targets = [''example.com'', ''http://[::1''],
                                  lp_Funnel = False, lp_IsRedirect = False,
                                  lp_TLSValidate = True\<rparr>)],
                    pc_ProxyProvider = []\<rparr>)],
      l_proxies = [], l_DefaultProxyProvider = ''default'', l_watching = False\<rparr>"

definition example_ProxyManager :: ProxyManager where
  "example_ProxyManager =
     NewProxyManager
       [(''local'', DockerProvider example_DockerClient),
        (''files'', ListProvider example_ListClient)]
       [(''default'', TailscaleClient ''default'')] ''default''"

definition example_event :: "string \<Rightarrow> string \<Rightarrow> ActionType \<Rightarrow> TargetEvent" where
  "example_event n i a = \<lparr>te_TargetProvider = n, te_ID = i, te_Action = a\<rparr>"

definition example_pm1 :: ProxyManager where
  "example_pm1 =
     (case manager_run example_Env [Dispatch (example_event ''local'' ''c1'' ActionStartProxy)]
             example_ProxyManager of
        None \<Rightarrow> example_ProxyManager
      | Some pm \<Rightarrow> pm)"

text \<open>The events one call of \<open>Close\<close> publishes for a proxy of the given hostname.\<close>

definition stop_events :: "string \<Rightarrow> ProxyEvent list" where
  "stop_events h =
     [\<lparr>ev_ID = h, ev_Status = ProxyStatusStopping\<rparr>,
      \<lparr>ev_ID = h, ev_Status = ProxyStatusStopped\<rparr>]"

definition example_Config :: Config where
  "example_Config =
     \<lparr>TargetID = ''c1'', Hostname = ''web'', TargetProvider = ''local'',
      ProxyProvider = ''default'', ProxyAccessLog = True, Ports = []\<rparr>"

definition example_Proxy :: Proxy where
  "example_Proxy =
     \<lparr>onUpdate = True, cancelled = False,
      providerProxy = \<lparr>pp_config = example_Config, pp_started = True, pp_closed = False\<rparr>,
      Config = example_Config, ports = [], status = ProxyStatusRunning\<rparr>"

definition all_targets_invalid_in :: "proxyConfig \<Rightarrow> bool" where
  "all_targets_invalid_in p = all_targets_invalid example_Env p"

definition projr_option :: "'e + 'a \<Rightarrow> 'a option" where
  "projr_option r = (case r of Inl e \<Rightarrow> None | Inr x \<Rightarrow> Some x)"

text \<open>
  The state \<open>example_pm1\<close> after the runtime provider has lost its bookkeeping of
  active containers.
\<close>

definition example_pm2 :: ProxyManager where
  "example_pm2 =
     example_pm1\<lparr>TargetProviders := [(''local'', DockerProvider example_DockerClient)]\<rparr>"

text \<open>
  Further example inputs: a container that is the process's own host and has no known
  port; a container with internal port 8080 published as 32811; an inbound request with
  the outbound request the library cloned from it; a redirect port of a list entry.
\<close>

definition example_World :: World where
  "example_World =
     \<lparr>os_Hostname = Some ''abc123def456'', autoDetectTries = 5,
      tryConnectContainer = (\<lambda>try scheme internalPort publishedPort. None),
      w_url_Parse = (\<lambda>s. if prefix ''http://'' s
                           then Some \<lparr>Scheme = ''http'', Host = drop 7 s, Path = []\<rparr>
                           else None)\<rparr>"

definition example_own_container :: container where
  "example_own_container =
     \<lparr>c_id = ''abc123def456789'', c_ports = [], networkMode = ''bridge'',
      defaultBridgeAddress = [], defaultTargetHostname = ''host.docker.internal'',
      autodetect = False\<rparr>"

definition example_Request :: Request where
  "example_Request =
     \<lparr>req_Method = ''GET'', req_URL = \<lparr>Scheme = [], Host = [], Path = ''/''\<rparr>,
      req_Host = ''web.tailnet.ts.net'',
      req_Header = [''Accept'' \<mapsto> [''text/html'']],
      req_RemoteAddr = ''100.64.0.7:41234'', req_TLS = False,
      req_ctx = \<lparr>ctx_whois = None\<rparr>\<rparr>"

definition example_ProxyRequest :: ProxyRequest where
  "example_ProxyRequest = \<lparr>pr_In = example_Request, pr_Out = example_Request\<rparr>"

definition example_lc_WhoIs :: "string \<Rightarrow> UserProfile option" where
  "example_lc_WhoIs a =
     (if a = ''100.64.0.7:41234''
      then Some \<lparr>up_ID = ''42'', LoginName = ''u'', up_DisplayName = ''U Name'',
                 up_ProfilePicURL = ''https://example.com/u.png''\<rparr>
      else None)"


definition example_redirect_ListClient :: ListClient where
  "example_redirect_ListClient =
     \<lparr>l_name = ''files'',
      l_configProxies =
        [(''foo'', \<lparr>pc_Ports = [(''80/http'',
                                 \<lparr>lp_Targets = [''https://example.com/''],
                                  lp_Funnel = False, lp_IsRedirect = True,
                                  lp_TLSValidate = True\<rparr>)],
                    pc_ProxyProvider = []\<rparr>)],
      l_proxies = [], l_DefaultProxyProvider = ''default'', l_watching = False\<rparr>"

definition example_redirect_Config :: Config where
  "example_redirect_Config =
     \<lparr>TargetID = ''foo'', Hostname = ''foo'', TargetProvider = ''files'',
      ProxyProvider = ''default'', ProxyAccessLog = True,
      Ports = [(''80/http'',
                \<lparr>ProxyProtocol = ''http'', ProxyPort = 80, Funnel = False, TLSValidate = True,
                 IsRedirect = True,
                 Targets = [\<lparr>Scheme = ''https'', Host = ''example.com'', Path = ''/''\<rparr>]\<rparr>)]\<rparr>"

section \<open>Unfolding rules\<close>

lemmas example_defs =
  example_parse_def example_Env_def example_container_def example_web_Config_def
  example_DockerClient_def example_ListClient_def example_ProxyManager_def example_event_def

lemmas manager_defs =
  NewProxyManager_def broadcastStatusEvents_def addProxy_def removeProxy_def
  getProxyByTargetID_def getProxyProvider_def newAndStartProxy_def eventStart_def eventStop_def
  HandleProxyEvent_def StopAllProxies_def manager_step_def

lemmas provider_defs =
  tp_AddTarget_def tp_DeleteProxy_def tp_GetDefaultProxyProviderName_def tp_Close_def
  docker_AddTarget_def docker_DeleteProxy_def docker_Close_def
  list_AddTarget_def list_DeleteProxy_def list_Close_def list_newProxyConfig_def
  list_addTarget_def getPorts_def add_target_url_def NewPortShortLabel_def
  PortConfig_AddTarget_def GetTargets_def

lemmas proxy_defs =
  NewProxy_def Provider_NewProxy_def initPorts_def newPortProxy_def newPortRedirect_def
  setStatus_def Close_def cancel_def close_def port_close_def providerProxy_Close_def

section \<open>Closing a proxy\<close>

lemma Close_status: "status (fst (Close pb)) = ProxyStatusStopped"
  by (cases pb) (simp add: Close_def setStatus_def cancel_def close_def)

lemma Close_Config: "Config (fst (Close pb)) = Config (fst pb)"
  by (cases pb) (simp add: Close_def setStatus_def cancel_def close_def)

lemma Close_onUpdate: "onUpdate (fst (Close pb)) = onUpdate (fst pb)"
  by (cases pb) (simp add: Close_def setStatus_def cancel_def close_def)

lemma Close_bus:
  "onUpdate p \<Longrightarrow> status p \<noteq> ProxyStatusStopping \<Longrightarrow>
   snd (Close (p, b)) = b @ stop_events (Hostname (Config p))"
  by (simp add: Close_def setStatus_def cancel_def close_def stop_events_def)

lemma Close_funpow:
  "onUpdate p \<Longrightarrow> status p \<noteq> ProxyStatusStopping \<Longrightarrow>
   snd ((Close ^^ n) (p, b)) = b @ concat (replicate n (stop_events (Hostname (Config p))))
   \<and> onUpdate (fst ((Close ^^ n) (p, b)))
   \<and> Config (fst ((Close ^^ n) (p, b))) = Config p
   \<and> (0 < n \<longrightarrow> status (fst ((Close ^^ n) (p, b))) = ProxyStatusStopped)
   \<and> status (fst ((Close ^^ n) (p, b))) \<noteq> ProxyStatusStopping"
proof (induction n)
  case 0
  then show ?case by simp
next
  case (Suc n)
  obtain q c where qc: "(Close ^^ n) (p, b) = (q, c)"
    by (cases "(Close ^^ n) (p, b)")
  from Suc qc have q: "onUpdate q" "status q \<noteq> ProxyStatusStopping" "Config q = Config p"
    and c: "c = b @ concat (replicate n (stop_events (Hostname (Config p))))"
    by simp_all
  have "snd (Close (q, c)) = c @ stop_events (Hostname (Config q))"
    using q by (simp add: Close_bus)
  moreover have "concat (replicate (Suc n) xs) = concat (replicate n xs) @ xs" for xs :: "ProxyEvent list"
    by (induction n) simp_all
  ultimately show ?case
    using q c qc Close_status [of "(q, c)"] Close_Config [of "(q, c)"] Close_onUpdate [of "(q, c)"]
    by simp
qed

text \<open>
  C2, as stated: N calls of Close publish exactly one Stopping and one Stopped event.
  Two calls on a running proxy publish the pair twice: \<open>setStatus\<close> only suppresses a
  status equal to the cached one, and the second call finds Stopped, not Stopping.
\<close>

theorem C2_close_twice_counterexample:
  "snd ((Close ^^ 2) (example_Proxy, [])) = stop_events ''web'' @ stop_events ''web''
   \<and> snd ((Close ^^ 2) (example_Proxy, [])) \<noteq> stop_events ''web''"
  by (simp add: numeral_2_eq_2 Close_def setStatus_def cancel_def close_def stop_events_def
      example_Proxy_def example_Config_def)

text \<open>
  C2, amended: every sequential call of Close on a proxy with a wired callback whose
  status is not already Stopping publishes one Stopping followed by one Stopped event,
  so N calls publish N such pairs; after any N \<ge> 1 calls the status is Stopped.
\<close>

theorem C2_close_publishes_each_time:
  assumes "onUpdate p" and "status p \<noteq> ProxyStatusStopping"
  shows "snd ((Close ^^ n) (p, b)) = b @ concat (replicate n (stop_events (Hostname (Config p))))
         \<and> (0 < n \<longrightarrow> GetStatus (fst ((Close ^^ n) (p, b))) = ProxyStatusStopped)"
  using Close_funpow [OF assms, of n b] by (simp add: GetStatus_def)

theorem C2_close_publishes_each_time_witness:
  "onUpdate example_Proxy \<and> status example_Proxy \<noteq> ProxyStatusStopping
   \<and> snd ((Close ^^ 3) (example_Proxy, [])) = concat (replicate 3 (stop_events ''web''))
   \<and> GetStatus (fst ((Close ^^ 3) (example_Proxy, []))) = ProxyStatusStopped"
proof -
  have h1: "onUpdate example_Proxy" by (simp add: example_Proxy_def)
  have h2: "status example_Proxy \<noteq> ProxyStatusStopping" by (simp add: example_Proxy_def)
  have h3: "Hostname (Config example_Proxy) = ''web''"
    by (simp add: example_Proxy_def example_Config_def)
  show ?thesis
    using h1 h2 h3 C2_close_publishes_each_time [OF h1 h2, of 3 "[]"] by simp
qed

section \<open>The registry of live proxies\<close>

lemma removeProxy_distinct:
  "distinct (map fst (Proxies pm)) \<Longrightarrow> distinct (map fst (Proxies (removeProxy h pm)))"
  by (auto simp: removeProxy_def distinct_delete split: option.splits prod.splits)

lemma newAndStartProxy_distinct:
  "distinct (map fst (Proxies pm)) \<Longrightarrow> distinct (map fst (Proxies (newAndStartProxy n cfg pm)))"
  by (auto simp: newAndStartProxy_def broadcastStatusEvents_def addProxy_def distinct_update
      split: sum.splits)

lemma eventStart_distinct:
  "distinct (map fst (Proxies pm)) \<Longrightarrow> eventStart E ev pm = Some pm' \<Longrightarrow>
   distinct (map fst (Proxies pm'))"
  by (auto simp: eventStart_def newAndStartProxy_distinct split: option.splits sum.splits)

lemma eventStop_distinct:
  "distinct (map fst (Proxies pm)) \<Longrightarrow> eventStop ev pm = Some pm' \<Longrightarrow>
   distinct (map fst (Proxies pm'))"
  by (auto simp: eventStop_def removeProxy_distinct split: option.splits sum.splits)

lemma HandleProxyEvent_distinct:
  "distinct (map fst (Proxies pm)) \<Longrightarrow> HandleProxyEvent E ev pm = Some pm' \<Longrightarrow>
   distinct (map fst (Proxies pm'))"
  by (auto simp: HandleProxyEvent_def split: ActionType.splits option.splits
      dest: eventStart_distinct eventStop_distinct)

lemma foldl_removeProxy_distinct:
  "distinct (map fst (Proxies pm)) \<Longrightarrow>
   distinct (map fst (Proxies (foldl (\<lambda>m i. removeProxy i m) pm hs)))"
  by (induction hs arbitrary: pm) (simp_all add: removeProxy_distinct)

lemma StopAllProxies_distinct:
  "distinct (map fst (Proxies pm)) \<Longrightarrow> distinct (map fst (Proxies (StopAllProxies pm)))"
  by (simp add: StopAllProxies_def foldl_removeProxy_distinct)

lemma manager_step_distinct:
  "distinct (map fst (Proxies pm)) \<Longrightarrow> manager_step E opn pm = Some pm' \<Longrightarrow>
   distinct (map fst (Proxies pm'))"
  by (auto simp: manager_step_def StopAllProxies_distinct split: manager_op.splits
      dest: HandleProxyEvent_distinct)

lemma manager_run_distinct:
  "distinct (map fst (Proxies pm)) \<Longrightarrow> manager_run E ops pm = Some pm' \<Longrightarrow>
   distinct (map fst (Proxies pm'))"
proof (induction ops arbitrary: pm)
  case Nil
  then show ?case by simp
next
  case (Cons opn ops)
  then show ?case
    by (auto split: option.splits dest: manager_step_distinct)
qed

lemma foldl_initPorts_Config:
  "Config (foldl (\<lambda>q (k, v).
              q\<lparr>ports := AList.update k
                   (if IsRedirect v then newPortRedirect v
                    else newPortProxy v (ProxyAccessLog (Config q)))
                   (ports q)\<rparr>) p xs) = Config p
   \<and> status (foldl (\<lambda>q (k, v).
              q\<lparr>ports := AList.update k
                   (if IsRedirect v then newPortRedirect v
                    else newPortProxy v (ProxyAccessLog (Config q)))
                   (ports q)\<rparr>) p xs) = status p"
  by (induction xs arbitrary: p) (simp_all add: case_prod_beta)

lemma NewProxy_Inr:
  "\<exists>p. NewProxy cfg pp = Inr p \<and> Config p = cfg \<and> status p = ProxyStatusInitializing
       \<and> (Ports cfg = [] \<longrightarrow> ports p = [])"
  by (simp add: NewProxy_def Provider_NewProxy_def initPorts_def foldl_initPorts_Config)

lemma newAndStartProxy_registers:
  assumes "getProxyProvider pm pcfg = Inr pp" and "NewProxy pcfg pp = Inr p"
  shows "Proxies (newAndStartProxy n pcfg pm)
           = AList.update (Hostname (Config p)) (p\<lparr>onUpdate := True\<rparr>) (Proxies pm)
       \<and> statusBus (newAndStartProxy n pcfg pm)
           = statusBus pm @ [\<lparr>ev_ID = Hostname (Config p), ev_Status = ProxyStatusInitializing\<rparr>]"
  using assms by (simp add: newAndStartProxy_def broadcastStatusEvents_def addProxy_def)

lemma pm1_run:
  "manager_run example_Env [Dispatch (example_event ''local'' ''c1'' ActionStartProxy)]
     example_ProxyManager = Some example_pm1"
  by (simp add: example_pm1_def example_defs manager_defs provider_defs proxy_defs)

text \<open>
  C1, as stated: a proxy registered under an already registered hostname replaces the
  first only through a Restart event, never through a plain Start. Container \<open>c1\<close> is
  started and registered as \<open>web\<close>; the plain Start of container \<open>c2\<close>, whose label
  gives the same hostname, replaces the entry. The first proxy is not closed: the bus
  shows the two Initializing events only.
\<close>

theorem C1_plain_start_replaces_counterexample:
  "registry_view
     (manager_run example_Env [Dispatch (example_event ''local'' ''c1'' ActionStartProxy)]
        example_ProxyManager)
     = [(''web'', ''c1'', ProxyStatusInitializing)]
   \<and> registry_view
       (manager_run example_Env
          [Dispatch (example_event ''local'' ''c1'' ActionStartProxy),
           Dispatch (example_event ''local'' ''c2'' ActionStartProxy)]
          example_ProxyManager)
       = [(''web'', ''c2'', ProxyStatusInitializing)]
   \<and> bus_view
       (manager_run example_Env
          [Dispatch (example_event ''local'' ''c1'' ActionStartProxy),
           Dispatch (example_event ''local'' ''c2'' ActionStartProxy)]
          example_ProxyManager)
       = [(''web'', ProxyStatusInitializing), (''web'', ProxyStatusInitializing)]"
  by (simp add: registry_view_def bus_view_def example_defs manager_defs provider_defs
      proxy_defs)

text \<open>
  C1, amended: in every state the manager reaches from an empty registry by handling
  events and shutting down, no two registry entries share a hostname. Registering under
  a hostname that is already registered overwrites the entry, and a plain Start event
  does so: when its target materializes and a mesh provider resolves, the new proxy
  takes the place of the registered one, the set of keys stays the same and only
  Initializing is broadcast.
\<close>

theorem C1_keys_distinct_start_replaces:
  assumes run: "manager_run E ops (NewProxyManager tps pps d) = Some pm"
  shows "distinct (map fst (Proxies pm))
       \<and> (\<forall>event tp pcfg tp' pp old.
             te_Action event = ActionStartProxy
             \<and> map_of (TargetProviders pm) (te_TargetProvider event) = Some tp
             \<and> tp_AddTarget E tp (te_ID event) = Inr (pcfg, tp')
             \<and> getProxyProvider
                   (pm\<lparr>TargetProviders :=
                         AList.update (te_TargetProvider event) tp' (TargetProviders pm)\<rparr>) pcfg
                 = Inr pp
             \<and> map_of (Proxies pm) (Hostname pcfg) = Some old
             \<longrightarrow> (\<exists>pm' p. HandleProxyEvent E event pm = Some pm'
                    \<and> NewProxy pcfg pp = Inr p
                    \<and> map_of (Proxies pm') (Hostname pcfg) = Some (p\<lparr>onUpdate := True\<rparr>)
                    \<and> map fst (Proxies pm') = map fst (Proxies pm)
                    \<and> statusBus pm'
                        = statusBus pm @ [\<lparr>ev_ID = Hostname pcfg,
                                           ev_Status = ProxyStatusInitializing\<rparr>]))"
proof (intro conjI allI impI)
  have "distinct (map fst (Proxies (NewProxyManager tps pps d)))"
    by (simp add: NewProxyManager_def)
  then show "distinct (map fst (Proxies pm))"
    using run by (rule manager_run_distinct)
next
  fix event :: TargetEvent and tp tp' :: TargetProvider and pcfg :: Config
    and pp :: Provider and old :: Proxy
  assume a: "te_Action event = ActionStartProxy
             \<and> map_of (TargetProviders pm) (te_TargetProvider event) = Some tp
             \<and> tp_AddTarget E tp (te_ID event) = Inr (pcfg, tp')
             \<and> getProxyProvider
                   (pm\<lparr>TargetProviders :=
                         AList.update (te_TargetProvider event) tp' (TargetProviders pm)\<rparr>) pcfg
                 = Inr pp
             \<and> map_of (Proxies pm) (Hostname pcfg) = Some old"
  let ?pm1 = "pm\<lparr>TargetProviders :=
                         AList.update (te_TargetProvider event) tp' (TargetProviders pm)\<rparr>"
  obtain p where p: "NewProxy pcfg pp = Inr p" "Config p = pcfg"
    using NewProxy_Inr [of pcfg pp] by blast
  have h: "HandleProxyEvent E event pm = Some (newAndStartProxy (Hostname pcfg) pcfg ?pm1)"
    using a by (simp add: HandleProxyEvent_def eventStart_def)
  have reg: "Proxies (newAndStartProxy (Hostname pcfg) pcfg ?pm1)
               = AList.update (Hostname pcfg) (p\<lparr>onUpdate := True\<rparr>) (Proxies pm)"
    and b: "statusBus (newAndStartProxy (Hostname pcfg) pcfg ?pm1)
               = statusBus pm @ [\<lparr>ev_ID = Hostname pcfg, ev_Status = ProxyStatusInitializing\<rparr>]"
    using newAndStartProxy_registers [of ?pm1 pcfg pp p "Hostname pcfg"] a p by simp_all
  have k: "Hostname pcfg \<in> fst ` set (Proxies pm)"
  proof -
    from a have "map_of (Proxies pm) (Hostname pcfg) = Some old" by simp
    then have "(Hostname pcfg, old) \<in> set (Proxies pm)" by (rule map_of_SomeD)
    then show ?thesis by force
  qed
  show "\<exists>pm' p. HandleProxyEvent E event pm = Some pm'
                    \<and> NewProxy pcfg pp = Inr p
                    \<and> map_of (Proxies pm') (Hostname pcfg) = Some (p\<lparr>onUpdate := True\<rparr>)
                    \<and> map fst (Proxies pm') = map fst (Proxies pm)
                    \<and> statusBus pm'
                        = statusBus pm @ [\<lparr>ev_ID = Hostname pcfg,
                                           ev_Status = ProxyStatusInitializing\<rparr>]"
    using h p reg b k by (simp add: update_conv' update_keys)
qed

theorem C1_keys_distinct_start_replaces_witness:
  "manager_run example_Env [Dispatch (example_event ''local'' ''c1'' ActionStartProxy)]
     example_ProxyManager = Some example_pm1
   \<and> map_option (\<lambda>p. TargetID (Config p)) (map_of (Proxies example_pm1) ''web'') = Some ''c1''
   \<and> distinct (map fst (Proxies example_pm1))
   \<and> (\<exists>pm' p. HandleProxyEvent example_Env
                  (example_event ''local'' ''c2'' ActionStartProxy) example_pm1 = Some pm'
         \<and> NewProxy (example_web_Config ''c2'') (TailscaleClient ''default'') = Inr p
         \<and> map_of (Proxies pm') ''web'' = Some (p\<lparr>onUpdate := True\<rparr>)
         \<and> map fst (Proxies pm') = [''web'']
         \<and> statusBus pm'
             = [\<lparr>ev_ID = ''web'', ev_Status = ProxyStatusInitializing\<rparr>,
                \<lparr>ev_ID = ''web'', ev_Status = ProxyStatusInitializing\<rparr>])"
proof -
  let ?ev = "example_event ''local'' ''c2'' ActionStartProxy"
  let ?tp = "DockerProvider
               (example_DockerClient\<lparr>d_containers := [(''c1'', example_container ''c1'')]\<rparr>)"
  let ?tp' = "DockerProvider
                (example_DockerClient\<lparr>d_containers := [(''c1'', example_container ''c1''),
                                                        (''c2'', example_container ''c2'')]\<rparr>)"
  note th = C1_keys_distinct_start_replaces [OF pm1_run [unfolded example_ProxyManager_def]]
  have h1: "te_Action ?ev = ActionStartProxy"
    by (simp add: example_event_def)
  have h2: "map_of (TargetProviders example_pm1) (te_TargetProvider ?ev) = Some ?tp"
    by (simp add: example_pm1_def example_defs manager_defs provider_defs proxy_defs)
  have h3: "tp_AddTarget example_Env ?tp (te_ID ?ev) = Inr (example_web_Config ''c2'', ?tp')"
    by (simp add: example_defs provider_defs)
  have h4: "getProxyProvider
              (example_pm1\<lparr>TargetProviders :=
                 AList.update (te_TargetProvider ?ev) ?tp' (TargetProviders example_pm1)\<rparr>)
              (example_web_Config ''c2'') = Inr (TailscaleClient ''default'')"
    by (simp add: example_pm1_def example_defs manager_defs provider_defs proxy_defs)
  obtain old where h5: "map_of (Proxies example_pm1) (Hostname (example_web_Config ''c2'')) = Some old"
    by (simp add: example_pm1_def example_defs manager_defs provider_defs proxy_defs)
  have v1: "map_option (\<lambda>p. TargetID (Config p)) (map_of (Proxies example_pm1) ''web'') = Some ''c1''"
    by (simp add: example_pm1_def example_defs manager_defs provider_defs proxy_defs)
  have v2: "map fst (Proxies example_pm1) = [''web'']" "statusBus example_pm1
             = [\<lparr>ev_ID = ''web'', ev_Status = ProxyStatusInitializing\<rparr>]"
    by (simp_all add: example_pm1_def example_defs manager_defs provider_defs proxy_defs)
  have v3: "Hostname (example_web_Config ''c2'') = ''web''"
    by (simp add: example_web_Config_def)
  from th have d: "distinct (map fst (Proxies example_pm1))" by (rule conjunct1)
  from th have "\<exists>pm' p. HandleProxyEvent example_Env ?ev example_pm1 = Some pm'
                    \<and> NewProxy (example_web_Config ''c2'') (TailscaleClient ''default'') = Inr p
                    \<and> map_of (Proxies pm') (Hostname (example_web_Config ''c2''))
                        = Some (p\<lparr>onUpdate := True\<rparr>)
                    \<and> map fst (Proxies pm') = map fst (Proxies example_pm1)
                    \<and> statusBus pm'
                        = statusBus example_pm1
                          @ [\<lparr>ev_ID = Hostname (example_web_Config ''c2''),
                              ev_Status = ProxyStatusInitializing\<rparr>]"
    using h1 h2 h3 h4 h5 by blast
  then show ?thesis
    using pm1_run v1 v2 v3 d by simp
qed

section \<open>Restart, and the failure of Stop\<close>

lemma eventStop_action: "eventStop (event\<lparr>te_Action := a\<rparr>) pm = eventStop event pm"
  by (simp add: eventStop_def cong: option.case_cong sum.case_cong)

lemma eventStart_action: "eventStart E (event\<lparr>te_Action := a\<rparr>) pm = eventStart E event pm"
  by (simp add: eventStart_def cong: option.case_cong sum.case_cong prod.case_cong)

text \<open>
  C3: handling a Restart event for a target leaves the manager (registry, status bus and
  the providers' bookkeeping) in the state that handling a Stop event for that target
  and then a Start event for it leaves; if the Stop handler panics, so does Restart.
\<close>

theorem C3_restart_is_stop_then_start:
  "HandleProxyEvent E (event\<lparr>te_Action := ActionRestartProxy\<rparr>) pm =
     (case HandleProxyEvent E (event\<lparr>te_Action := ActionStopProxy\<rparr>) pm of
        None \<Rightarrow> None
      | Some pm' \<Rightarrow> HandleProxyEvent E (event\<lparr>te_Action := ActionStartProxy\<rparr>) pm')"
  by (simp add: HandleProxyEvent_def eventStop_action eventStart_action split: option.splits)

text \<open>
  C10: a Stop event that names a target id without live proxy, or whose provider
  refuses \<open>DeleteProxy\<close>, leaves the manager as it was: same registry entries with the
  same proxies in the same status, same bus, same provider bookkeeping.
\<close>

theorem C10_failed_stop_changes_nothing:
  assumes "te_Action event = ActionStopProxy"
    and "getProxyByTargetID pm (te_ID event) = None
       \<or> (\<exists>proxy tp e. getProxyByTargetID pm (te_ID event) = Some proxy
            \<and> map_of (TargetProviders pm) (TargetProvider (Config proxy)) = Some tp
            \<and> tp_DeleteProxy tp (te_ID event) = Inl e)"
  shows "HandleProxyEvent E event pm = Some pm"
  using assms by (auto simp: HandleProxyEvent_def eventStop_def)

theorem C10_failed_stop_changes_nothing_witness:
  "te_Action (example_event ''local'' ''c9'' ActionStopProxy) = ActionStopProxy
   \<and> getProxyByTargetID example_pm1 ''c9'' = None
   \<and> HandleProxyEvent example_Env (example_event ''local'' ''c9'' ActionStopProxy) example_pm1
       = Some example_pm1
   \<and> map_option (\<lambda>p. Hostname (Config p)) (getProxyByTargetID example_pm2 ''c1'') = Some ''web''
   \<and> tp_DeleteProxy (DockerProvider example_DockerClient) ''c1'' = Inl ErrTargetNotFound
   \<and> HandleProxyEvent example_Env (example_event ''local'' ''c1'' ActionStopProxy) example_pm2
       = Some example_pm2"
proof -
  let ?e9 = "example_event ''local'' ''c9'' ActionStopProxy"
  let ?e1 = "example_event ''local'' ''c1'' ActionStopProxy"
  have a9: "te_Action ?e9 = ActionStopProxy" and a1: "te_Action ?e1 = ActionStopProxy"
    by (simp_all add: example_event_def)
  have n9: "getProxyByTargetID example_pm1 (te_ID ?e9) = None"
    by (simp add: example_pm1_def example_defs manager_defs provider_defs proxy_defs)
  obtain proxy where g1: "getProxyByTargetID example_pm2 (te_ID ?e1) = Some proxy"
    and t1: "TargetProvider (Config proxy) = ''local''" and w1: "Hostname (Config proxy) = ''web''"
    by (simp add: example_pm2_def example_pm1_def example_defs manager_defs provider_defs proxy_defs)
  have m1: "map_of (TargetProviders example_pm2) (TargetProvider (Config proxy))
              = Some (DockerProvider example_DockerClient)"
    using t1 by (simp add: example_pm2_def example_defs)
  have d1: "tp_DeleteProxy (DockerProvider example_DockerClient) (te_ID ?e1) = Inl ErrTargetNotFound"
    by (simp add: example_defs provider_defs)
  have r9: "HandleProxyEvent example_Env ?e9 example_pm1 = Some example_pm1"
    using C10_failed_stop_changes_nothing [OF a9, of example_pm1 example_Env] n9 by blast
  have r1: "HandleProxyEvent example_Env ?e1 example_pm2 = Some example_pm2"
    using C10_failed_stop_changes_nothing [OF a1, of example_pm2 example_Env] g1 m1 d1 by blast
  show ?thesis
    using a9 n9 r9 g1 w1 d1 r1 by (simp add: example_event_def)
qed

section \<open>List entries without a valid target\<close>

lemma foldl_add_target_url_invalid:
  "list_all (invalid_target E) ts \<Longrightarrow> foldl (add_target_url E) port ts = port"
  by (induction ts arbitrary: port)
     (auto simp: add_target_url_def invalid_target_def split: option.splits)

lemma foldl_getPorts_invalid:
  "list_all (\<lambda>(k, v). list_all (invalid_target E) (lp_Targets v)) l \<Longrightarrow>
   foldl (\<lambda>ps (k, v).
            let port = foldl (add_target_url E)
                         ((NewPortShortLabel E k)\<lparr>IsRedirect := lp_IsRedirect v\<rparr>)
                         (lp_Targets v)
            in if length (GetTargets port) = 0 then ps
               else AList.update k
                      (port\<lparr>TLSValidate := lp_TLSValidate v, Funnel := lp_Funnel v\<rparr>) ps)
     ps l = ps"
  by (induction l arbitrary: ps)
     (auto simp: foldl_add_target_url_invalid NewPortShortLabel_def GetTargets_def)

lemma getPorts_all_invalid: "all_targets_invalid E p \<Longrightarrow> getPorts E (pc_Ports p) = []"
  unfolding all_targets_invalid_def getPorts_def by (rule foldl_getPorts_invalid)

lemma start_without_ports:
  "ports proxy = [] \<Longrightarrow> onUpdate proxy \<Longrightarrow> status proxy = ProxyStatusInitializing \<Longrightarrow>
   start start_ok listen_ok (proxy, b)
     = (proxy\<lparr>status := ProxyStatusError\<rparr>,
        b @ [\<lparr>ev_ID = Hostname (Config proxy), ev_Status = ProxyStatusError\<rparr>])"
  by (simp add: start_def setStatus_def)

text \<open>
  C4, as stated: after the Start event of a list entry whose targets are all invalid the
  registry holds no proxy under the entry's hostname. The entry \<open>foo\<close> has one port with
  a scheme-less target and an unparseable one; after its Start event the registry holds
  a proxy under \<open>foo\<close>.
\<close>

theorem C4_invalid_entry_registered_counterexample:
  "map_option all_targets_invalid_in (map_of (l_configProxies example_ListClient) ''foo'')
     = Some True
   \<and> registry_view (HandleProxyEvent example_Env
                       (example_event ''files'' ''foo'' ActionStartProxy) example_ProxyManager)
       = [(''foo'', ''foo'', ProxyStatusInitializing)]"
  by (simp add: registry_view_def all_targets_invalid_in_def all_targets_invalid_def
      invalid_target_def example_defs manager_defs provider_defs proxy_defs)

text \<open>
  C4, amended: for a list entry all of whose port target URLs are invalid the ports are
  dropped, so the config has no ports; the proxy is created all the same. When a mesh
  provider resolves, the Start event registers the proxy under the entry's hostname with
  no port workers, in status Initializing, and its start-up goes to Error, publishing
  Error, without starting the endpoint.
\<close>

theorem C4_invalid_entry_registered_then_error:
  assumes tp: "map_of (TargetProviders pm) n = Some (ListProvider c)"
    and entry: "map_of (l_configProxies c) i = Some p"
    and invalid: "all_targets_invalid E p"
    and add: "list_AddTarget E c i = Inr (cfg, c')"
    and mesh: "getProxyProvider
                 (pm\<lparr>TargetProviders := AList.update n (ListProvider c') (TargetProviders pm)\<rparr>)
                 cfg = Inr pp"
  shows "Ports cfg = [] \<and> Hostname cfg = i
       \<and> (\<exists>pm' proxy.
             HandleProxyEvent E \<lparr>te_TargetProvider = n, te_ID = i, te_Action = ActionStartProxy\<rparr> pm
               = Some pm'
             \<and> map_of (Proxies pm') i = Some proxy
             \<and> ports proxy = []
             \<and> status proxy = ProxyStatusInitializing
             \<and> \<not> pp_started (providerProxy proxy)
             \<and> (\<forall>start_ok listen_ok b.
                   start start_ok listen_ok (proxy, b)
                     = (proxy\<lparr>status := ProxyStatusError\<rparr>,
                        b @ [\<lparr>ev_ID = i, ev_Status = ProxyStatusError\<rparr>])))"
proof -
  let ?ev = "\<lparr>te_TargetProvider = n, te_ID = i, te_Action = ActionStartProxy\<rparr>"
  let ?pm1 = "pm\<lparr>TargetProviders := AList.update n (ListProvider c') (TargetProviders pm)\<rparr>"
  from add entry have cfg: "Ports cfg = getPorts E (pc_Ports p)" "Hostname cfg = i"
    by (auto simp: list_AddTarget_def list_newProxyConfig_def split: if_splits)
  with invalid have np: "Ports cfg = []"
    by (simp add: getPorts_all_invalid)
  obtain q where q: "NewProxy cfg pp = Inr q" "Config q = cfg"
    "status q = ProxyStatusInitializing" "ports q = []"
    using NewProxy_Inr [of cfg pp] np by blast
  have q': "\<not> pp_started (providerProxy q)"
    using q(1) by (auto simp: NewProxy_def Provider_NewProxy_def initPorts_def np q(2))
  have h: "HandleProxyEvent E ?ev pm = Some (newAndStartProxy (Hostname cfg) cfg ?pm1)"
    using tp add by (simp add: HandleProxyEvent_def eventStart_def tp_AddTarget_def)
  have reg: "Proxies (newAndStartProxy (Hostname cfg) cfg ?pm1)
               = AList.update i (q\<lparr>onUpdate := True\<rparr>) (Proxies pm)"
    using newAndStartProxy_registers [OF mesh q(1), of "Hostname cfg"] q(2) cfg(2) by simp
  have st: "start start_ok listen_ok (q\<lparr>onUpdate := True\<rparr>, b)
              = (q\<lparr>onUpdate := True, status := ProxyStatusError\<rparr>,
                 b @ [\<lparr>ev_ID = i, ev_Status = ProxyStatusError\<rparr>])"
    for start_ok listen_ok b
    using start_without_ports [of "q\<lparr>onUpdate := True\<rparr>" start_ok listen_ok b] q cfg(2) by simp
  show ?thesis
    using np cfg(2) h reg st q q' by (simp add: update_conv')
qed

theorem C4_invalid_entry_registered_then_error_witness:
  "map_of (TargetProviders example_ProxyManager) ''files'' = Some (ListProvider example_ListClient)
   \<and> map_option all_targets_invalid_in (map_of (l_configProxies example_ListClient) ''foo'')
       = Some True
   \<and> map_option (\<lambda>r. Ports (fst r)) (projr_option (list_AddTarget example_Env example_ListClient ''foo''))
       = Some []
   \<and> registry_view (HandleProxyEvent example_Env
                       \<lparr>te_TargetProvider = ''files'', te_ID = ''foo'', te_Action = ActionStartProxy\<rparr>
                       example_ProxyManager)
       = [(''foo'', ''foo'', ProxyStatusInitializing)]"
proof -
  let ?p = "\<lparr>pc_Ports = [(''80/http'',
                          \<lparr>lp_Targets = [''example.com'', ''http://[::1''], lp_Funnel = False,
                           lp_IsRedirect = False, lp_TLSValidate = True\<rparr>)],
             pc_ProxyProvider = []\<rparr>"
  let ?cfg = "\<lparr>TargetID = ''foo'', Hostname = ''foo'', TargetProvider = ''files'',
               ProxyProvider = ''default'', ProxyAccessLog = True, Ports = []\<rparr>"
  let ?c' = "example_ListClient\<lparr>l_proxies := [(''foo'', ?p)]\<rparr>"
  have tp: "map_of (TargetProviders example_ProxyManager) ''files''
              = Some (ListProvider example_ListClient)"
    by (simp add: example_defs manager_defs)
  have entry: "map_of (l_configProxies example_ListClient) ''foo'' = Some ?p"
    by (simp add: example_defs)
  have invalid: "all_targets_invalid example_Env ?p"
    by (simp add: all_targets_invalid_def invalid_target_def example_defs)
  have add: "list_AddTarget example_Env example_ListClient ''foo'' = Inr (?cfg, ?c')"
    by (simp add: example_defs provider_defs)
  have mesh: "getProxyProvider
                (example_ProxyManager\<lparr>TargetProviders :=
                   AList.update ''files'' (ListProvider ?c') (TargetProviders example_ProxyManager)\<rparr>)
                ?cfg = Inr (TailscaleClient ''default'')"
    by (simp add: example_defs manager_defs)
  note th = C4_invalid_entry_registered_then_error [OF tp entry invalid add mesh]
  from th obtain pm' proxy where
    h: "HandleProxyEvent example_Env
          \<lparr>te_TargetProvider = ''files'', te_ID = ''foo'', te_Action = ActionStartProxy\<rparr>
          example_ProxyManager = Some pm'"
    and r: "map_of (Proxies pm') ''foo'' = Some proxy" "status proxy = ProxyStatusInitializing"
    by blast
  have v: "registry_view (HandleProxyEvent example_Env
                       \<lparr>te_TargetProvider = ''files'', te_ID = ''foo'', te_Action = ActionStartProxy\<rparr>
                       example_ProxyManager)
       = [(''foo'', ''foo'', ProxyStatusInitializing)]"
    by (simp add: registry_view_def example_defs manager_defs provider_defs proxy_defs)
  show ?thesis
    using tp entry invalid add v
    by (simp add: all_targets_invalid_in_def projr_option_def)
qed

section \<open>Closing a target provider\<close>

text \<open>
  C5, as stated: \<open>Close\<close> of every target provider terminates the watcher and emits a
  Stop event for every id that is still active. The runtime provider that holds
  container \<open>c1\<close> as active emits nothing when closed, and the list provider that was
  set to watch its file still watches it after \<open>Close\<close>.
\<close>

theorem C5_close_counterexample:
  "map_option tp_active (map_of (TargetProviders example_pm1) ''local'') = Some [''c1'']
   \<and> map_option (\<lambda>tp. snd (tp_Close tp)) (map_of (TargetProviders example_pm1) ''local'')
       = Some []
   \<and> l_watching (fst (list_Close (fst (list_WatchEvents example_ListClient))))"
  by (simp add: tp_active_def list_WatchEvents_def example_pm1_def example_defs manager_defs
      provider_defs proxy_defs)

text \<open>
  C5, amended: \<open>Close\<close> of the list-file provider emits one Stop event for every id in its
  map of active proxies, in the order of the map, and leaves the provider, its file
  watcher included, as it was; \<open>Close\<close> of the container-runtime provider closes the
  runtime client and keeps the provider's bookkeeping.
\<close>

theorem C5_provider_close:
  "tp_Close (ListProvider c)
     = (ListProvider c,
        map (\<lambda>i. \<lparr>te_TargetProvider = l_name c, te_ID = i, te_Action = ActionStopProxy\<rparr>)
          (tp_active (ListProvider c)))
   \<and> fst (tp_Close (DockerProvider d)) = DockerProvider (d\<lparr>d_docker_open := False\<rparr>)"
  by (simp add: tp_Close_def list_Close_def docker_Close_def tp_active_def case_prod_beta
      comp_def)

section \<open>Upstream URL resolution\<close>

lemma autoDetect_find:
  "autoDetect probe t n =
     (case find (\<lambda>i. probe i \<noteq> None) [t..<t + n] of None \<Rightarrow> None | Some i \<Rightarrow> probe i)"
proof (induction n arbitrary: t)
  case 0
  then show ?case by simp
next
  case (Suc n)
  have "[t..<t + Suc n] = t # [Suc t..<Suc t + n]"
    by (simp add: upt_rec)
  then show ?case
    using Suc [of "Suc t"] by (auto split: option.splits)
qed

lemma autoDetect_first_probe: "autoDetect probe 0 K = first_probe probe K"
  by (simp add: first_probe_def autoDetect_find)

text \<open>
  Before anything else the code asks for a port: with neither an internal port nor a
  published port for it, resolution fails at once.
\<close>

lemma getTargetURL_no_port_known:
  "URL_Port iPort = [] \<Longrightarrow> getPublishedPort c [] = [] \<Longrightarrow>
   getTargetURL W c iPort = Inl ErrNoPortFoundInContainer"
  by (simp add: getTargetURL_def)

lemma getTargetURL_spec:
  "getTargetURL W c iPort =
     (if URL_Port iPort = [] \<and> getPublishedPort c (URL_Port iPort) = []
      then Inl ErrNoPortFoundInContainer
      else spec_getTargetURL W c iPort)"
  by (auto simp: getTargetURL_def spec_getTargetURL_def Let_def autoDetect_first_probe
      split: option.splits)

text \<open>
  C7: given the internal port of the container, upstream resolution tries, in this
  order: the loopback address with the internal port when the container is the
  process's own host; when autodetect is on, up to \<open>autoDetectTries\<close> probes, returning
  the first that succeeds; for host networking with a known default bridge address, the
  default target hostname with the internal port; the default target hostname with the
  published port; and it fails with no-port-found when no published port is known.
\<close>

theorem C7_resolution_order:
  assumes "URL_Port iPort \<noteq> []"
  shows "getTargetURL W c iPort = spec_getTargetURL W c iPort"
  using assms by (simp add: getTargetURL_spec)

theorem C7_resolution_order_witness:
  "URL_Port \<lparr>Scheme = ''http'', Host = ''0.0.0.0:8080'', Path = []\<rparr> = ''8080''
   \<and> getTargetURL example_World (example_container ''c1'')
       \<lparr>Scheme = ''http'', Host = ''0.0.0.0:8080'', Path = []\<rparr>
       = Inr \<lparr>Scheme = ''http'', Host = ''host.docker.internal:32811'', Path = []\<rparr>
   \<and> getTargetURL example_World example_own_container
       \<lparr>Scheme = ''http'', Host = ''0.0.0.0:8080'', Path = []\<rparr>
       = Inr \<lparr>Scheme = ''http'', Host = ''127.0.0.1:8080'', Path = []\<rparr>
   \<and> getTargetURL example_World (example_container ''c1'')
       \<lparr>Scheme = ''http'', Host = ''0.0.0.0:9090'', Path = []\<rparr>
       = Inl ErrNoPortFoundInContainer"
proof -
  let ?p = "\<lparr>Scheme = ''http'', Host = ''0.0.0.0:8080'', Path = []\<rparr>"
  let ?q = "\<lparr>Scheme = ''http'', Host = ''0.0.0.0:9090'', Path = []\<rparr>"
  have p: "URL_Port ?p = ''8080''" and q: "URL_Port ?q = ''9090''"
    by (simp_all add: URL_Port_def)
  have hp: "URL_Port ?p \<noteq> []" and hq: "URL_Port ?q \<noteq> []"
    using p q by simp_all
  have s1: "spec_getTargetURL example_World (example_container ''c1'') ?p
              = Inr \<lparr>Scheme = ''http'', Host = ''host.docker.internal:32811'', Path = []\<rparr>"
    by (simp add: spec_getTargetURL_def getPublishedPort_def p url_Parse_result_def
        example_World_def example_container_def)
  have s2: "spec_getTargetURL example_World example_own_container ?p
              = Inr \<lparr>Scheme = ''http'', Host = ''127.0.0.1:8080'', Path = []\<rparr>"
    by (simp add: spec_getTargetURL_def getPublishedPort_def p url_Parse_result_def
        example_World_def example_own_container_def)
  have s3: "spec_getTargetURL example_World (example_container ''c1'') ?q
              = Inl ErrNoPortFoundInContainer"
    by (simp add: spec_getTargetURL_def getPublishedPort_def q url_Parse_result_def
        example_World_def example_container_def)
  show ?thesis
    using C7_resolution_order [OF hp, of example_World "example_container ''c1''"]
      C7_resolution_order [OF hp, of example_World example_own_container]
      C7_resolution_order [OF hq, of example_World "example_container ''c1''"]
      p s1 s2 s3
    by simp
qed

section \<open>Identity headers\<close>







section \<open>Redirect ports\<close>

lemma foldl_initPorts_ports:
  "distinct (map fst xs) \<Longrightarrow>
   map_of (ports (foldl (\<lambda>q (k, v).
              q\<lparr>ports := AList.update k
                   (if IsRedirect v then newPortRedirect v
                    else newPortProxy v (ProxyAccessLog (Config q)))
                   (ports q)\<rparr>) p xs)) k
     = (case map_of xs k of
          None \<Rightarrow> map_of (ports p) k
        | Some v \<Rightarrow> Some (if IsRedirect v then newPortRedirect v
                          else newPortProxy v (ProxyAccessLog (Config p))))"
proof (induction xs arbitrary: p)
  case Nil
  then show ?case by simp
next
  case (Cons x xs)
  obtain k' v' where x: "x = (k', v')" by (cases x)
  from Cons.prems x have d: "distinct (map fst xs)" and n: "k' \<notin> fst ` set xs"
    by simp_all
  from n have m: "map_of xs k' = None"
    by (simp add: map_of_eq_None_iff)
  show ?case
    using Cons.IH [OF d] x m by (auto simp: update_conv' split: option.splits)
qed

lemma NewProxy_ports:
  "distinct (map fst (Ports cfg)) \<Longrightarrow> NewProxy cfg pp = Inr p \<Longrightarrow>
   map_of (ports p) k
     = map_option (\<lambda>v. if IsRedirect v then newPortRedirect v
                        else newPortProxy v (ProxyAccessLog cfg)) (map_of (Ports cfg) k)"
  by (auto simp: NewProxy_def Provider_NewProxy_def initPorts_def foldl_initPorts_ports
      split: option.splits)

text \<open>
  Every port of a config the list provider builds has a first target, and its targets
  are absolute URLs with a host; the port keys are distinct.
\<close>

lemma foldl_add_target_url_valid:
  "list_all (\<lambda>u. Scheme u \<noteq> [] \<and> Host u \<noteq> []) (Targets port) \<Longrightarrow>
   list_all (\<lambda>u. Scheme u \<noteq> [] \<and> Host u \<noteq> [])
     (Targets (foldl (add_target_url E) port ts))"
  by (induction ts arbitrary: port)
     (auto simp: add_target_url_def PortConfig_AddTarget_def split: option.splits)

lemma foldl_getPorts_valid:
  assumes "distinct (map fst ps)"
    and "\<forall>k v. map_of ps k = Some v \<longrightarrow>
           Targets v \<noteq> [] \<and> list_all (\<lambda>u. Scheme u \<noteq> [] \<and> Host u \<noteq> []) (Targets v)"
  shows "distinct (map fst
           (foldl (\<lambda>ps (k, v).
              let port = foldl (add_target_url E)
                           ((NewPortShortLabel E k)\<lparr>IsRedirect := lp_IsRedirect v\<rparr>)
                           (lp_Targets v)
              in if length (GetTargets port) = 0 then ps
                 else AList.update k
                        (port\<lparr>TLSValidate := lp_TLSValidate v, Funnel := lp_Funnel v\<rparr>) ps)
            ps l))
       \<and> (\<forall>k v. map_of
           (foldl (\<lambda>ps (k, v).
              let port = foldl (add_target_url E)
                           ((NewPortShortLabel E k)\<lparr>IsRedirect := lp_IsRedirect v\<rparr>)
                           (lp_Targets v)
              in if length (GetTargets port) = 0 then ps
                 else AList.update k
                        (port\<lparr>TLSValidate := lp_TLSValidate v, Funnel := lp_Funnel v\<rparr>) ps)
            ps l) k = Some v \<longrightarrow>
           Targets v \<noteq> [] \<and> list_all (\<lambda>u. Scheme u \<noteq> [] \<and> Host u \<noteq> []) (Targets v))"
  using assms
proof (induction l arbitrary: ps)
  case Nil
  then show ?case by simp
next
  case (Cons x l)
  obtain k v where x: "x = (k, v)" by (cases x)
  let ?port = "foldl (add_target_url E)
                 ((NewPortShortLabel E k)\<lparr>IsRedirect := lp_IsRedirect v\<rparr>) (lp_Targets v)"
  let ?ps' = "if length (GetTargets ?port) = 0 then ps
              else AList.update k
                     (?port\<lparr>TLSValidate := lp_TLSValidate v, Funnel := lp_Funnel v\<rparr>) ps"
  have v: "list_all (\<lambda>u. Scheme u \<noteq> [] \<and> Host u \<noteq> []) (Targets ?port)"
    by (rule foldl_add_target_url_valid) (simp add: NewPortShortLabel_def)
  have d: "distinct (map fst ?ps')"
    using Cons.prems(1) by (simp add: distinct_update)
  have t: "\<forall>k v. map_of ?ps' k = Some v \<longrightarrow>
             Targets v \<noteq> [] \<and> list_all (\<lambda>u. Scheme u \<noteq> [] \<and> Host u \<noteq> []) (Targets v)"
    using Cons.prems(2) v by (auto simp: update_conv' GetTargets_def split: if_splits)
  show ?case
    using Cons.IH [OF d t] x by (simp add: Let_def)
qed

lemma list_AddTarget_ports:
  assumes "list_AddTarget E c i = Inr (cfg, c')"
  shows "distinct (map fst (Ports cfg))
       \<and> (\<forall>k v. map_of (Ports cfg) k = Some v \<longrightarrow>
             Targets v \<noteq> [] \<and> list_all (\<lambda>u. Scheme u \<noteq> [] \<and> Host u \<noteq> []) (Targets v))"
proof -
  from assms have "\<exists>p :: proxyConfig. Ports cfg = getPorts E (pc_Ports p)"
    by (auto simp: list_AddTarget_def list_newProxyConfig_def split: option.splits if_splits)
  then obtain p :: proxyConfig where "Ports cfg = getPorts E (pc_Ports p)" ..
  then show ?thesis
    unfolding getPorts_def
    using foldl_getPorts_valid [of "[]" E "pc_Ports p"] by simp
qed

text \<open>
  C8: for a port configured as redirect whose first target is an absolute URL, the
  worker the proxy builds for it answers every request with 301 Moved Permanently and
  the first target as Location, and opens no upstream connection.
\<close>

theorem C8_redirect_port:
  assumes "distinct (map fst (Ports cfg))"
    and "map_of (Ports cfg) k = Some v"
    and "IsRedirect v"
    and "Targets v = u # us"
    and "Scheme u \<noteq> [] \<or> Host u \<noteq> []"
    and "NewProxy cfg pp = Inr p"
  shows "\<exists>w. map_of (ports p) k = Some w
            \<and> serve lc upstream (httpServer w) r
                = \<lparr>response = \<lparr>resp_code = 301, resp_Location = Some (URL_String u)\<rparr>,
                   dialled = []\<rparr>"
  using assms NewProxy_ports [of cfg pp p k]
  by (auto simp: serve_def newPortRedirect_def http_Redirect_def GetFirstTarget_def
      StatusMovedPermanently_def)

theorem C8_redirect_port_witness:
  "map_option fst (projr_option (list_AddTarget example_Env example_redirect_ListClient ''foo''))
     = Some example_redirect_Config
   \<and> distinct (map fst (Ports example_redirect_Config))
   \<and> map_option IsRedirect (map_of (Ports example_redirect_Config) ''80/http'') = Some True
   \<and> (\<exists>p w. NewProxy example_redirect_Config (TailscaleClient ''default'') = Inr p
         \<and> map_of (ports p) ''80/http'' = Some w
         \<and> serve example_lc_WhoIs (\<lambda>out. \<lparr>resp_code = 200, resp_Location = None\<rparr>)
             (httpServer w) example_ProxyRequest
             = \<lparr>response = \<lparr>resp_code = 301, resp_Location = Some ''https://example.com/''\<rparr>,
                dialled = []\<rparr>)"
proof -
  let ?v = "\<lparr>ProxyProtocol = ''http'', ProxyPort = 80, Funnel = False, TLSValidate = True,
             IsRedirect = True,
             Targets = [\<lparr>Scheme = ''https'', Host = ''example.com'', Path = ''/''\<rparr>]\<rparr>"
  let ?u = "\<lparr>Scheme = ''https'', Host = ''example.com'', Path = ''/''\<rparr>"
  have h0: "map_option fst
              (projr_option (list_AddTarget example_Env example_redirect_ListClient ''foo''))
            = Some example_redirect_Config"
    by (simp add: projr_option_def example_redirect_ListClient_def example_redirect_Config_def
        example_Env_def example_parse_def provider_defs)
  have h1: "distinct (map fst (Ports example_redirect_Config))"
    and h2: "map_of (Ports example_redirect_Config) ''80/http'' = Some ?v"
    by (simp_all add: example_redirect_Config_def)
  have h3: "IsRedirect ?v" and h4: "Targets ?v = ?u # []"
    and h5: "Scheme ?u \<noteq> [] \<or> Host ?u \<noteq> []"
    by simp_all
  obtain p where h6: "NewProxy example_redirect_Config (TailscaleClient ''default'') = Inr p"
    using NewProxy_Inr [of example_redirect_Config "TailscaleClient ''default''"] by blast
  have s: "URL_String ?u = ''https://example.com/''"
    by (simp add: URL_String_def)
  from C8_redirect_port [OF h1 h2 h3 h4 h5 h6, of example_lc_WhoIs
      "\<lambda>out. \<lparr>resp_code = 200, resp_Location = None\<rparr>" example_ProxyRequest]
  show ?thesis
    using h0 h1 h2 h6 s by auto
qed

section \<open>Status events on the bus\<close>

lemma remdups_adj_hd: "remdups_adj (x # xs) = x # tl (remdups_adj (x # xs))"
  by (cases xs) auto

lemma setStatuses_bus:
  "onUpdate p \<Longrightarrow>
   snd (setStatuses sts (p, b))
     = b @ map (\<lambda>st. \<lparr>ev_ID = Hostname (Config p), ev_Status = st\<rparr>)
             (tl (remdups_adj (status p # sts)))
   \<and> status (fst (setStatuses sts (p, b))) = last (status p # sts)"
proof (induction sts arbitrary: p b)
  case Nil
  then show ?case by simp
next
  case (Cons st sts)
  show ?case
  proof (cases "status p = st")
    case True
    then have "setStatus st (p, b) = (p, b)"
      by (simp add: setStatus_def)
    then show ?thesis
      using Cons.IH [OF Cons.prems, of b] True by simp
  next
    case False
    let ?p = "p\<lparr>status := st\<rparr>"
    let ?b = "b @ [\<lparr>ev_ID = Hostname (Config p), ev_Status = st\<rparr>]"
    have s: "setStatus st (p, b) = (?p, ?b)"
      using False Cons.prems by (simp add: setStatus_def)
    have o: "onUpdate ?p"
      using Cons.prems by simp
    obtain ys where r: "remdups_adj (st # sts) = st # ys"
      using remdups_adj_hd [of st sts] by blast
    show ?thesis
      using Cons.IH [OF o, of ?b] s False r by simp
  qed
qed

text \<open>
  C9, as stated: an observer of the status bus never sees a status regress except along
  Running, Stopping, Stopped. Container \<open>c1\<close> is started; the endpoint of its proxy fails
  to start, so the proxy closes itself; the Stop event of the container then closes it
  again. The bus shows Stopped followed by Stopping.
\<close>

theorem C9_stopped_then_stopping_counterexample:
  "bus_view (HandleProxyEvent example_Env (example_event ''local'' ''c1'' ActionStopProxy)
               (proxy_start False (\<lambda>k. True) ''web'' example_pm1))
     = [(''web'', ProxyStatusInitializing), (''web'', ProxyStatusStopping),
        (''web'', ProxyStatusStopped), (''web'', ProxyStatusStopping),
        (''web'', ProxyStatusStopped)]
   \<and> sees_regress
       (map snd
          (bus_view (HandleProxyEvent example_Env
                       (example_event ''local'' ''c1'' ActionStopProxy)
                       (proxy_start False (\<lambda>k. True) ''web'' example_pm1))))
   \<and> regress ProxyStatusStopped ProxyStatusStopping"
  by (simp add: bus_view_def regress_def proxy_start_def start_def example_pm1_def example_defs
      manager_defs provider_defs proxy_defs)

text \<open>
  C9, amended: in a sequential run the status events of a proxy are published in the
  order of its status changes: the bus receives one event for every \<open>setStatus\<close> call
  that changes the cached status, carrying the new status, and none for a call that
  repeats the cached status, so the last event is the cached status. No change is
  refused, whatever its direction.
\<close>

theorem C9_bus_follows_status_changes:
  assumes "onUpdate p"
  shows "snd (setStatuses sts (p, []))
           = map (\<lambda>st. \<lparr>ev_ID = Hostname (Config p), ev_Status = st\<rparr>)
               (tl (remdups_adj (status p # sts)))
       \<and> GetStatus (fst (setStatuses sts (p, []))) = last (status p # sts)"
  using setStatuses_bus [OF assms, of sts "[]"] by (simp add: GetStatus_def)

theorem C9_bus_follows_status_changes_witness:
  "onUpdate example_Proxy
   \<and> map ev_Status
       (snd (setStatuses [ProxyStatusRunning, ProxyStatusStarting, ProxyStatusStarting,
                          ProxyStatusRunning, ProxyStatusStopping, ProxyStatusStopped]
               (example_Proxy, [])))
       = [ProxyStatusStarting, ProxyStatusRunning, ProxyStatusStopping, ProxyStatusStopped]
   \<and> GetStatus
       (fst (setStatuses [ProxyStatusRunning, ProxyStatusStarting, ProxyStatusStarting,
                          ProxyStatusRunning, ProxyStatusStopping, ProxyStatusStopped]
               (example_Proxy, [])))
       = ProxyStatusStopped"
proof -
  have h: "onUpdate example_Proxy"
    by (simp add: example_Proxy_def)
  have s: "status example_Proxy = ProxyStatusRunning"
    by (simp add: example_Proxy_def)
  show ?thesis
    using h s C9_bus_follows_status_changes [OF h,
        of "[ProxyStatusRunning, ProxyStatusStarting, ProxyStatusStarting,
             ProxyStatusRunning, ProxyStatusStopping, ProxyStatusStopped]"]
    by (simp add: comp_def)
qed

end
